theory Spec2Isabelle
  imports Complex_Main
begin

section \<open>JavaScript values, strings and exceptions\<close>

text \<open>
  The client of \<^verbatim>\<open>src/mcpClient.js\<close> is modelled as pure functions over explicit
  state. A \<open>string\<close> stands for a JavaScript string, one \<open>char\<close> per code unit
  (code units below 256). The values that \<^verbatim>\<open>JSON.parse\<close> yields are the datatype
  \<open>json\<close>; a number is the rational it denotes, and an object is the list of its
  members, each key once. \<^verbatim>\<open>undefined\<close> is \<open>None\<close> of \<open>json option\<close>.
\<close>

datatype json =
    JNull
  | JBool bool
  | JNum rat
  | JStr string
  | JArr "json list"
  | JObj "(string \<times> json) list"

text \<open>A thrown exception: the constructor names the JavaScript class, the argument is
  its \<^verbatim>\<open>message\<close>.\<close>

datatype error = Error string | TypeError string | SyntaxError string

fun message :: "error \<Rightarrow> string" where
  "message (Error m) = m"
| "message (TypeError m) = m"
| "message (SyntaxError m) = m"

text \<open>
  What the code takes from the platform and does not define itself: \<^verbatim>\<open>JSON.parse\<close>
  (\<open>Inl\<close> is the exception it throws), the conversion of a number to a string, and
  the environment variable \<^verbatim>\<open>DEBUG_HEADERS\<close> read as a condition.
\<close>

record platform =
  JSON_parse :: "string \<Rightarrow> error + json"
  Number_toString :: "rat \<Rightarrow> string"
  DEBUG_HEADERS :: bool

text \<open>The condition of \<^verbatim>\<open>if (v)\<close> and the left operand of \<^verbatim>\<open>v || d\<close>.\<close>

fun truthy :: "json \<Rightarrow> bool" where
  "truthy JNull = False"
| "truthy (JBool b) = b"
| "truthy (JNum n) = (n \<noteq> 0)"
| "truthy (JStr s) = (s \<noteq> [])"
| "truthy (JArr xs) = True"
| "truthy (JObj kvs) = True"

definition null_read :: "string \<Rightarrow> error" where
  "null_read k =
     TypeError (''Cannot read properties of null (reading '' @ [CHR 0x27] @ k @ [CHR 0x27] @ '')'')"

text \<open>
  The property read \<^verbatim>\<open>v.k\<close> for the names the client reads (\<^verbatim>\<open>jsonrpc\<close>,
  \<^verbatim>\<open>error\<close>, \<^verbatim>\<open>result\<close>, \<^verbatim>\<open>message\<close>), none of which a prototype defines: on
  \<^verbatim>\<open>null\<close> it throws, on an object it is the member or \<^verbatim>\<open>undefined\<close>, on
  every other value it is \<^verbatim>\<open>undefined\<close>.
\<close>

fun get_prop :: "json \<Rightarrow> string \<Rightarrow> error + json option" where
  "get_prop JNull k = Inl (null_read k)"
| "get_prop (JObj kvs) k = Inr (map_of kvs k)"
| "get_prop v k = Inr None"

fun join :: "string \<Rightarrow> string list \<Rightarrow> string" where
  "join sep [] = []"
| "join sep [x] = x"
| "join sep (x # y # ys) = x @ sep @ join sep (y # ys)"

text \<open>
  The string conversion that \<^verbatim>\<open>new Error(v)\<close> applies to its argument. An object is
  converted by the \<^verbatim>\<open>toString\<close> it inherits; an object with a member of its own
  named \<^verbatim>\<open>toString\<close> (which \<^verbatim>\<open>JSON.parse\<close> never makes callable) has no primitive
  value, and the conversion throws. An array converts its elements in turn,
  \<^verbatim>\<open>null\<close> to the empty string, and throws what the first of them throws.
\<close>

definition not_primitive :: error where
  "not_primitive = TypeError ''Cannot convert object to primitive value''"

fun first_error :: "(error + 'a) list \<Rightarrow> error + 'a list" where
  "first_error [] = Inr []"
| "first_error (Inl e # xs) = Inl e"
| "first_error (Inr a # xs) = (case first_error xs of Inl e \<Rightarrow> Inl e | Inr as \<Rightarrow> Inr (a # as))"

fun ToString :: "platform \<Rightarrow> json \<Rightarrow> error + string" where
  "ToString P JNull = Inr ''null''"
| "ToString P (JBool b) = Inr (if b then ''true'' else ''false'')"
| "ToString P (JNum n) = Inr (Number_toString P n)"
| "ToString P (JStr s) = Inr s"
| "ToString P (JArr xs) =
     (case first_error (map (\<lambda>x. if x = JNull then Inr [] else ToString P x) xs) of
        Inl e \<Rightarrow> Inl e
      | Inr ss \<Rightarrow> Inr (join '','' ss))"
| "ToString P (JObj kvs) =
     (if map_of kvs ''toString'' = None then Inr ''[object Object]'' else Inl not_primitive)"

text \<open>\<^verbatim>\<open>new Error(v || d)\<close>: the message of the error made, or the exception of the
  conversion.\<close>

definition message_or :: "platform \<Rightarrow> json option \<Rightarrow> string \<Rightarrow> error + string" where
  "message_or P v d =
     (case v of None \<Rightarrow> Inr d | Some m \<Rightarrow> if truthy m then ToString P m else Inr d)"

subsection \<open>String methods\<close>

definition startsWith :: "string \<Rightarrow> string \<Rightarrow> bool" where
  "startsWith s p = (take (length p) s = p)"

fun str_includes :: "string \<Rightarrow> string \<Rightarrow> bool" where
  "str_includes [] p = (p = [])"
| "str_includes (c # cs) p = (startsWith (c # cs) p \<or> str_includes cs p)"

definition is_ws :: "char \<Rightarrow> bool" where
  "is_ws c = (c \<in> set [CHR 0x09, CHR 0x0A, CHR 0x0B, CHR 0x0C, CHR 0x0D, CHR 0x20, CHR 0xA0])"

definition trim :: "string \<Rightarrow> string" where
  "trim s = rev (dropWhile is_ws (rev (dropWhile is_ws s)))"

text \<open>\<^verbatim>\<open>s.split('\n')\<close>: the pieces between line feeds, never an empty array.\<close>

fun split_nl :: "string \<Rightarrow> string list" where
  "split_nl [] = [[]]"
| "split_nl (c # cs) =
     (if c = CHR 0x0A then [] # split_nl cs
      else (case split_nl cs of [] \<Rightarrow> [[c]] | l # ls \<Rightarrow> (c # l) # ls))"

text \<open>\<^verbatim>\<open>lines.pop()\<close>: the last element (\<^verbatim>\<open>undefined\<close> on an empty array) and the
  array that is left.\<close>

definition pop :: "'a list \<Rightarrow> 'a option \<times> 'a list" where
  "pop xs = (if xs = [] then (None, []) else (Some (last xs), butlast xs))"

section \<open>The SSE aggregation\<close>

text \<open>
  What one \<^verbatim>\<open>reader.read()\<close> settles with: a chunk (here its text, as the streaming
  \<^verbatim>\<open>TextDecoder\<close> hands it over, which carries an incomplete byte sequence into the
  next chunk), or a rejection. The end of the list is \<^verbatim>\<open>done\<close>. A reader that
  goes on for ever without a rejection has no such list, and the promise of the
  aggregation then never settles unless an error event rejects it.
\<close>

datatype read = Chunk string | ReadError error

record response =
  status :: nat
  statusText :: string
  resp_headers :: "(string \<times> string) list"
  body :: "read list"

text \<open>
  The body of the \<^verbatim>\<open>for\<close> loop on one line, with the candidate \<open>result\<close> so far:
  \<open>Inl e\<close> is \<^verbatim>\<open>reject(e); return\<close>, \<open>Inr r\<close> goes on with the candidate \<open>r\<close>. The
  inner \<^verbatim>\<open>try\<close> swallows what \<^verbatim>\<open>JSON.parse\<close>, the property reads and
  \<^verbatim>\<open>new Error\<close> throw: the line is then skipped.
  \<open>retain\<close> is the assignment under \<^verbatim>\<open>parsed.result !== undefined\<close>.
\<close>

definition retain :: "json \<Rightarrow> json \<Rightarrow> json" where
  "retain parsed result =
     (case get_prop parsed ''result'' of
        Inl e \<Rightarrow> result
      | Inr None \<Rightarrow> result
      | Inr (Some r) \<Rightarrow> r)"

definition process_line :: "platform \<Rightarrow> json \<Rightarrow> string \<Rightarrow> error + json" where
  "process_line P result line =
     (if startsWith line ''data: '' then
        (let data = trim (drop 6 line) in
         if data \<noteq> [] then
           (case JSON_parse P data of
              Inl e \<Rightarrow> Inr result
            | Inr parsed \<Rightarrow>
               (case get_prop parsed ''jsonrpc'' of
                  Inl e \<Rightarrow> Inr result
                | Inr ver \<Rightarrow>
                   if ver = Some (JStr ''2.0'') then
                     (case get_prop parsed ''error'' of
                        Inl e \<Rightarrow> Inr result
                      | Inr None \<Rightarrow> Inr (retain parsed result)
                      | Inr (Some err) \<Rightarrow>
                         if truthy err then
                           (case get_prop err ''message'' of
                              Inl e \<Rightarrow> Inr result
                            | Inr m \<Rightarrow>
                               (case message_or P m ''SSE error'' of
                                  Inl e \<Rightarrow> Inr result
                                | Inr msg \<Rightarrow> Inl (Error msg)))
                         else Inr (retain parsed result))
                   else Inr result))
         else Inr result)
      else Inr result)"

fun process_lines :: "platform \<Rightarrow> json \<Rightarrow> string list \<Rightarrow> error + json" where
  "process_lines P result [] = Inr result"
| "process_lines P result (line # lines) =
     (case process_line P result line of
        Inl e \<Rightarrow> Inl e
      | Inr r \<Rightarrow> process_lines P r lines)"

text \<open>
  \<^verbatim>\<open>processChunk\<close> with the variables \<open>buffer\<close> and \<open>result\<close> of the enclosing
  promise. It returns how the promise settles (\<open>Inr\<close> resolves) and the reads never
  asked of the reader.
\<close>

fun processChunk ::
  "platform \<Rightarrow> string \<Rightarrow> json \<Rightarrow> read list \<Rightarrow> (error + json) \<times> read list" where
  "processChunk P buffer result [] =
     (if truthy result then Inr result
      else Inl (Error ''No data received from SSE stream''), [])"
| "processChunk P buffer result (ReadError e # rest) = (Inl e, rest)"
| "processChunk P buffer result (Chunk v # rest) =
     (let (popped, lines) = pop (split_nl (buffer @ v));
          buffer' = (case popped of None \<Rightarrow> [] | Some l \<Rightarrow> l)
      in case process_lines P result lines of
           Inl e \<Rightarrow> (Inl e, rest)
         | Inr result' \<Rightarrow> processChunk P buffer' result' rest)"

definition handleSSEResponse :: "platform \<Rightarrow> response \<Rightarrow> (error + json) \<times> read list" where
  "handleSSEResponse P response = processChunk P [] JNull (body response)"

subsection \<open>The vocabulary of the properties\<close>

text \<open>
  The complete lines of a text are those a line feed ends; what follows the last line
  feed stays in the buffer and is never examined. \<open>envelope\<close> is the parsed payload of
  a line the loop examines: a line that starts with \<^verbatim>\<open>data: \<close>, whose trimmed payload
  is not empty, parses, and carries \<^verbatim>\<open>jsonrpc: '2.0'\<close>.
\<close>

definition complete_lines :: "string \<Rightarrow> string list" where
  "complete_lines t = butlast (split_nl t)"

definition carry :: "string \<Rightarrow> string" where
  "carry t = last (split_nl t)"

definition envelope :: "platform \<Rightarrow> string \<Rightarrow> json option" where
  "envelope P line =
     (if startsWith line ''data: '' \<and> trim (drop 6 line) \<noteq> [] then
        (case JSON_parse P (trim (drop 6 line)) of
           Inl e \<Rightarrow> None
         | Inr parsed \<Rightarrow>
            if get_prop parsed ''jsonrpc'' = Inr (Some (JStr ''2.0'')) then Some parsed else None)
      else None)"

definition member_of :: "json \<Rightarrow> string \<Rightarrow> json option" where
  "member_of v k = (case get_prop v k of Inl e \<Rightarrow> None | Inr m \<Rightarrow> m)"

text \<open>The \<^verbatim>\<open>result\<close> member of a line's envelope, if it has one.\<close>

definition result_of :: "platform \<Rightarrow> string \<Rightarrow> json option" where
  "result_of P line = (case envelope P line of None \<Rightarrow> None | Some p \<Rightarrow> member_of p ''result'')"

text \<open>A line whose envelope has an \<^verbatim>\<open>error\<close> member that is truthy.\<close>

definition truthy_error :: "platform \<Rightarrow> string \<Rightarrow> bool" where
  "truthy_error P line =
     (case envelope P line of
        None \<Rightarrow> False
      | Some p \<Rightarrow> (case member_of p ''error'' of None \<Rightarrow> False | Some err \<Rightarrow> truthy err))"

text \<open>The message with which a line rejects the promise: its envelope has an
  \<^verbatim>\<open>error\<close> member that is truthy, and the message of that error (or the default)
  converts to a string.\<close>

definition error_of :: "platform \<Rightarrow> string \<Rightarrow> string option" where
  "error_of P line =
     (case envelope P line of
        None \<Rightarrow> None
      | Some p \<Rightarrow>
         (case member_of p ''error'' of
            None \<Rightarrow> None
          | Some err \<Rightarrow>
             if truthy err then
               (case message_or P (member_of err ''message'') ''SSE error'' of
                  Inl e \<Rightarrow> None
                | Inr msg \<Rightarrow> Some msg)
             else None))"

text \<open>The value a line makes the candidate: the \<^verbatim>\<open>result\<close> member of its envelope,
  when the envelope has no truthy \<^verbatim>\<open>error\<close> member.\<close>

definition retained_of :: "platform \<Rightarrow> string \<Rightarrow> json option" where
  "retained_of P line = (if truthy_error P line then None else result_of P line)"

text \<open>How the promise settles once the stream is done, from the candidate left.\<close>

definition settle :: "error + json \<Rightarrow> error + json" where
  "settle x =
     (case x of
        Inl e \<Rightarrow> Inl e
      | Inr r \<Rightarrow> if truthy r then Inr r else Inl (Error ''No data received from SSE stream''))"

section \<open>Requests and responses\<close>

subsection \<open>Response headers and body\<close>

fun lower_char :: "char \<Rightarrow> char" where
  "lower_char (Char b0 b1 b2 b3 b4 b5 b6 b7) =
     (let n = (of_char (Char b0 b1 b2 b3 b4 b5 b6 b7) :: nat)
      in if 65 \<le> n \<and> n \<le> 90 then Char b0 b1 b2 b3 b4 True b6 b7
         else Char b0 b1 b2 b3 b4 b5 b6 b7)"

definition lower :: "string \<Rightarrow> string" where
  "lower s = map lower_char s"

text \<open>
  \<^verbatim>\<open>response.headers.get(name)\<close>: the name is matched without regard to case, the
  values of a repeated header are joined, and a header that is absent gives
  \<^verbatim>\<open>null\<close>.
\<close>

definition headers_get :: "(string \<times> string) list \<Rightarrow> string \<Rightarrow> string option" where
  "headers_get hs name =
     (case filter (\<lambda>kv. lower (fst kv) = lower name) hs of
        [] \<Rightarrow> None
      | kv # kvs \<Rightarrow> Some (join '', '' (map snd (kv # kvs))))"

text \<open>\<^verbatim>\<open>response.ok\<close>.\<close>

definition ok :: "response \<Rightarrow> bool" where
  "ok response = (200 \<le> status response \<and> status response \<le> 299)"

text \<open>\<^verbatim>\<open>contentType && contentType.includes('text/event-stream')\<close>.\<close>

definition is_event_stream :: "response \<Rightarrow> bool" where
  "is_event_stream response =
     (case headers_get (resp_headers response) ''content-type'' of
        None \<Rightarrow> False
      | Some contentType \<Rightarrow> contentType \<noteq> [] \<and> str_includes contentType ''text/event-stream'')"

fun read_all :: "read list \<Rightarrow> error + string" where
  "read_all [] = Inr []"
| "read_all (ReadError e # rest) = Inl e"
| "read_all (Chunk s # rest) = (case read_all rest of Inl e \<Rightarrow> Inl e | Inr t \<Rightarrow> Inr (s @ t))"

text \<open>\<^verbatim>\<open>response.text()\<close> and \<^verbatim>\<open>response.json()\<close>.\<close>

definition response_text :: "response \<Rightarrow> error + string" where
  "response_text response = read_all (body response)"

definition response_json :: "platform \<Rightarrow> response \<Rightarrow> error + json" where
  "response_json P response =
     (case read_all (body response) of Inl e \<Rightarrow> Inl e | Inr t \<Rightarrow> JSON_parse P t)"

text \<open>A status code in a template literal: its decimal digits.\<close>

fun show_nat :: "nat \<Rightarrow> string" where
  "show_nat n =
     (if n < 10 then [''0123456789'' ! n]
      else show_nat (n div 10) @ [''0123456789'' ! (n mod 10)])"

declare show_nat.simps [simp del]

subsection \<open>The client\<close>

text \<open>
  A JavaScript object used as a dictionary of strings is a map. The request counter is a
  natural number: the code only ever adds one to it, starting from zero, and a JavaScript
  number holds every integer below \<open>2 ^ 53\<close> exactly.
\<close>

record serverConfig =
  cfg_url :: string
  cfg_headers :: "(string \<rightharpoonup> string) option"

record client =
  url :: string
  headers :: "string \<rightharpoonup> string"
  sessionId :: "string option"
  requestId :: nat

text \<open>What \<^verbatim>\<open>fetch\<close> is called with; \<open>req_body\<close> is the value that
  \<^verbatim>\<open>JSON.stringify\<close> is given.\<close>

record request =
  req_url :: string
  http_method :: string
  req_headers :: "string \<rightharpoonup> string"
  req_body :: json

text \<open>A line written to the console: the function called and its arguments.\<close>

datatype level = LOG | WARN | ERROR

datatype arg = AStr string | AHeaders "string \<rightharpoonup> string" | AJson json

text \<open>
  What a call of the client does: how its promise settles (\<open>Inl\<close> rejects), the client
  afterwards, the requests handed to \<^verbatim>\<open>fetch\<close>, and the console lines, in order.
\<close>

record 'a effect =
  outcome :: "error + 'a"
  after :: client
  sent :: "request list"
  console :: "(level \<times> arg list) list"

definition MCPClient :: "serverConfig \<Rightarrow> string option \<Rightarrow> client" where
  "MCPClient serverConfig sid =
     \<lparr>url = cfg_url serverConfig,
      headers = (case cfg_headers serverConfig of None \<Rightarrow> Map.empty | Some h \<Rightarrow> h),
      sessionId = sid,
      requestId = 0\<rparr>"

definition getNextRequestId :: "client \<Rightarrow> nat \<times> client" where
  "getNextRequestId c = (requestId c + 1, c\<lparr>requestId := requestId c + 1\<rparr>)"

text \<open>\<^verbatim>\<open>{ 'Content-Type': 'application/json', ...this.headers }\<close>.\<close>

definition base_headers :: "client \<Rightarrow> (string \<rightharpoonup> string)" where
  "base_headers c = [''Content-Type'' \<mapsto> ''application/json''] ++ headers c"

text \<open>The headers of \<^verbatim>\<open>sendRequest\<close>: the assignment under
  \<^verbatim>\<open>if (this.sessionId)\<close> comes after the spread.\<close>

definition requestHeaders :: "client \<Rightarrow> (string \<rightharpoonup> string)" where
  "requestHeaders c =
     (case sessionId c of
        None \<Rightarrow> base_headers c
      | Some s \<Rightarrow> if s \<noteq> [] then (base_headers c)(''Mcp-Session-Id'' \<mapsto> s) else base_headers c)"

definition rpc_request :: "nat \<Rightarrow> string \<Rightarrow> json \<Rightarrow> json" where
  "rpc_request i m params =
     JObj [(''jsonrpc'', JStr ''2.0''), (''id'', JNum (of_nat i)), (''method'', JStr m),
           (''params'', params)]"

definition rpc_notification :: "string \<Rightarrow> json \<Rightarrow> json" where
  "rpc_notification m params =
     JObj [(''jsonrpc'', JStr ''2.0''), (''method'', JStr m), (''params'', params)]"

text \<open>
  The code that reads a response, which \<^verbatim>\<open>sendRequest\<close> and \<^verbatim>\<open>initialize\<close> both
  hold: the event stream first, then the status, then the JSON body. It gives the value
  of \<^verbatim>\<open>result.result\<close> or the exception thrown, and the console lines.
\<close>

definition read_response ::
  "platform \<Rightarrow> response \<Rightarrow> (error + json option) \<times> (level \<times> arg list) list" where
  "read_response P response =
     (if is_event_stream response then
        ((case fst (handleSSEResponse P response) of Inl e \<Rightarrow> Inl e | Inr v \<Rightarrow> Inr (Some v)),
         [(LOG, [AStr ''[MCP] Received SSE response''])])
      else if \<not> ok response then
        (let errorBody = (case response_text response of Inl e \<Rightarrow> [] | Inr t \<Rightarrow> t);
             http = ''HTTP '' @ show_nat (status response) @ '': '' @ statusText response
         in (Inl (Error http),
             [(ERROR, [AStr (''[MCP] '' @ http)])] @
             (if errorBody \<noteq> []
              then [(ERROR, [AStr ''[MCP] Error response:'', AStr (take 500 errorBody)])]
              else [])))
      else
        (case response_json P response of
           Inl e \<Rightarrow> (Inl e, [])
         | Inr result \<Rightarrow>
            (case get_prop result ''error'' of
               Inl e \<Rightarrow> (Inl e, [])
             | Inr None \<Rightarrow> (Inr (member_of result ''result''), [])
             | Inr (Some err) \<Rightarrow>
                if truthy err then
                  ((case message_or P (member_of err ''message'') ''Unknown MCP error'' of
                      Inl e \<Rightarrow> Inl e
                    | Inr msg \<Rightarrow> Inl (Error msg)),
                   [(ERROR, [AStr ''[MCP] JSON-RPC error:'', AJson err])])
                else (Inr (member_of result ''result''), []))))"

text \<open>\<^verbatim>\<open>sendRequest(method, params)\<close>, given what \<^verbatim>\<open>fetch\<close> settles with
  (\<open>Inl\<close> is the exception of a failed fetch). The \<^verbatim>\<open>catch\<close> wraps every exception
  of the \<^verbatim>\<open>try\<close> block.\<close>

definition sendRequest ::
  "platform \<Rightarrow> client \<Rightarrow> string \<Rightarrow> json \<Rightarrow> error + response \<Rightarrow> json option effect" where
  "sendRequest P c m params fetched =
     (let (i, c') = getNextRequestId c;
          rq = \<lparr>req_url = url c, http_method = ''POST'', req_headers = requestHeaders c,
                req_body = rpc_request i m params\<rparr>;
          log1 = [(LOG, [AStr (''[MCP] Sending '' @ m @ '' to '' @ url c)])] @
                 (if DEBUG_HEADERS P then [(LOG, [AStr ''[MCP] Headers:'', AHeaders (headers c)])]
                  else []) @
                 (case sessionId c of
                    None \<Rightarrow> []
                  | Some s \<Rightarrow>
                     if s \<noteq> []
                     then [(LOG, [AStr (''[MCP] Using session ID: '' @ take 20 s @ ''...'')])]
                     else []);
          (res, log2) =
            (case fetched of
               Inl e \<Rightarrow> (Inl e, [])
             | Inr response \<Rightarrow>
                (case read_response P response of
                   (Inr v, l) \<Rightarrow>
                     (Inr v,
                      if is_event_stream response then l
                      else l @ [(LOG, [AStr (''[MCP] '' @ m @ '' successful'')])])
                 | (Inl e, l) \<Rightarrow> (Inl e, l)))
      in \<lparr>outcome =
            (case res of
               Inl e \<Rightarrow> Inl (Error (''MCP request failed: '' @ message e))
             | Inr v \<Rightarrow> Inr v),
          after = c', sent = [rq], console = log1 @ log2\<rparr>)"

text \<open>\<^verbatim>\<open>sendNotification(method)\<close> with the default \<^verbatim>\<open>params = {}\<close>: the request
  made and the warning written when the fetch fails. Nothing is thrown.\<close>

definition sendNotification ::
  "client \<Rightarrow> string \<Rightarrow> error + response \<Rightarrow> request \<times> (level \<times> arg list) list" where
  "sendNotification c m fetched =
     (\<lparr>req_url = url c, http_method = ''POST'', req_headers = base_headers c,
       req_body = rpc_notification m (JObj [])\<rparr>,
      (case fetched of
         Inl e \<Rightarrow> [(WARN, [AStr (''Notification '' @ m @ '' failed:''), AStr (message e)])]
       | Inr response \<Rightarrow> []))"

text \<open>The capture of the session id in \<^verbatim>\<open>initialize\<close>, under \<^verbatim>\<open>if (sessionId)\<close>.\<close>

definition capture :: "client \<Rightarrow> response \<Rightarrow> client \<times> (level \<times> arg list) list" where
  "capture c response =
     (case headers_get (resp_headers response) ''mcp-session-id'' of
        None \<Rightarrow> (c, [(LOG, [AStr ''[MCP] No session ID returned by server''])])
      | Some s \<Rightarrow>
         if s \<noteq> []
         then (c\<lparr>sessionId := Some s\<rparr>,
               [(LOG, [AStr (''[MCP] Received session ID: '' @ take 20 s @ ''...'')])])
         else (c, [(LOG, [AStr ''[MCP] No session ID returned by server''])]))"

text \<open>\<^verbatim>\<open>initialize()\<close>, given what its fetch settles with and what the fetch of the
  notification settles with. No \<^verbatim>\<open>try\<close> surrounds it: an exception leaves it as it
  is, after the counter and the session id have been assigned.\<close>

definition initialize ::
  "platform \<Rightarrow> client \<Rightarrow> error + response \<Rightarrow> error + response \<Rightarrow>
     (json option \<times> string option) effect" where
  "initialize P c fetched fetched' =
     (let (i, c1) = getNextRequestId c;
          rq = \<lparr>req_url = url c, http_method = ''POST'', req_headers = base_headers c,
                req_body =
                  rpc_request i ''initialize'' (JObj [(''protocolVersion'', JStr ''2025-06-18'')])\<rparr>;
          log1 = [(LOG, [AStr (''[MCP] Initializing session with '' @ url c)])]
      in case fetched of
           Inl e \<Rightarrow> \<lparr>outcome = Inl e, after = c1, sent = [rq], console = log1\<rparr>
         | Inr response \<Rightarrow>
            (let (c2, log2) = capture c1 response;
                 (res, log3) = read_response P response
             in case res of
                  Inl e \<Rightarrow>
                    \<lparr>outcome = Inl e, after = c2, sent = [rq], console = log1 @ log2 @ log3\<rparr>
                | Inr result \<Rightarrow>
                   (let (rq', log4) = sendNotification c2 ''notifications/initialized'' fetched'
                    in \<lparr>outcome = Inr (result, sessionId c2), after = c2, sent = [rq, rq'],
                        console = log1 @ log2 @ log3 @ log4 @
                                  [(LOG, [AStr ''[MCP] Initialize successful''])]\<rparr>)))"

definition listTools ::
  "platform \<Rightarrow> client \<Rightarrow> string option \<Rightarrow> error + response \<Rightarrow> json option effect" where
  "listTools P c cursor fetched =
     sendRequest P c ''tools/list''
       (case cursor of
          None \<Rightarrow> JObj []
        | Some s \<Rightarrow> if s \<noteq> [] then JObj [(''cursor'', JStr s)] else JObj [])
       fetched"

definition callTool ::
  "platform \<Rightarrow> client \<Rightarrow> string \<Rightarrow> json \<Rightarrow> error + response \<Rightarrow> json option effect" where
  "callTool P c toolName args fetched =
     sendRequest P c ''tools/call'' (JObj [(''name'', JStr toolName), (''arguments'', args)]) fetched"

subsection \<open>Sequences of calls on one instance\<close>

text \<open>A call of the client together with what the network answers to it.\<close>

datatype call =
    Initialize "error + response" "error + response"
  | ListTools "string option" "error + response"
  | CallTool string json "error + response"

fun step :: "platform \<Rightarrow> client \<Rightarrow> call \<Rightarrow> client \<times> request list" where
  "step P c (Initialize f f') = (after (initialize P c f f'), sent (initialize P c f f'))"
| "step P c (ListTools cursor f) = (after (listTools P c cursor f), sent (listTools P c cursor f))"
| "step P c (CallTool name args f) =
     (after (callTool P c name args f), sent (callTool P c name args f))"

text \<open>The requests that a sequence of calls hands to \<^verbatim>\<open>fetch\<close>, in order.\<close>

fun run :: "platform \<Rightarrow> client \<Rightarrow> call list \<Rightarrow> request list" where
  "run P c [] = []"
| "run P c (x # xs) = snd (step P c x) @ run P (fst (step P c x)) xs"

fun is_request_call :: "call \<Rightarrow> bool" where
  "is_request_call (Initialize f f') = False"
| "is_request_call (ListTools cursor f) = True"
| "is_request_call (CallTool name args f) = True"

text \<open>The \<^verbatim>\<open>id\<close> of a request body; a notification has none.\<close>

definition request_id :: "request \<Rightarrow> rat option" where
  "request_id rq = (case member_of (req_body rq) ''id'' of Some (JNum n) \<Rightarrow> Some n | _ \<Rightarrow> None)"

subsection \<open>Where a failure comes from\<close>

text \<open>
  What the code between the \<^verbatim>\<open>fetch\<close> and the end of a request-sending function
  produces before anything wraps it: the exception of the fetch, the exception thrown
  while the response is read, or the value of \<^verbatim>\<open>result.result\<close>.
\<close>

definition origin :: "platform \<Rightarrow> error + response \<Rightarrow> error + json option" where
  "origin P fetched =
     (case fetched of Inl e \<Rightarrow> Inl e | Inr response \<Rightarrow> fst (read_response P response))"

section \<open>Sample inputs\<close>

text \<open>
  The payloads of the examples, and a platform whose \<^verbatim>\<open>JSON.parse\<close> is given on
  exactly these payloads (every other text the examples hand to it is not JSON). The
  examples convert no number to a string.
\<close>

definition LF :: string where
  "LF = [CHR 0x0A]"

definition pl_result :: string where
  \<open>pl_result = ''{"jsonrpc":"2.0","id":2,"result":{"ok":true}}''\<close>

definition pl_boom :: string where
  \<open>pl_boom = ''{"jsonrpc":"2.0","id":2,"error":{"message":"boom"}}''\<close>

definition pl_null :: string where
  \<open>pl_null = ''{"jsonrpc":"2.0","id":1,"result":null}''\<close>

definition pl_error_null :: string where
  \<open>pl_error_null = ''{"jsonrpc":"2.0","id":1,"result":{"ok":true},"error":null}''\<close>

definition pl_tools :: string where
  \<open>pl_tools = ''{"jsonrpc":"2.0","id":1,"result":{"tools":[]}}''\<close>

definition pl_rpc_error :: string where
  \<open>pl_rpc_error = ''{"jsonrpc":"2.0","id":1,"error":{"code":-32601,"message":"Method not found"}}''\<close>

definition pl_progress :: string where
  \<open>pl_progress = ''{"progress":1}''\<close>

definition sample_parse :: "string \<Rightarrow> error + json" where
  "sample_parse s =
     (if s = pl_result then
        Inr (JObj [(''jsonrpc'', JStr ''2.0''), (''id'', JNum 2),
                   (''result'', JObj [(''ok'', JBool True)])])
      else if s = pl_boom then
        Inr (JObj [(''jsonrpc'', JStr ''2.0''), (''id'', JNum 2),
                   (''error'', JObj [(''message'', JStr ''boom'')])])
      else if s = pl_null then
        Inr (JObj [(''jsonrpc'', JStr ''2.0''), (''id'', JNum 1), (''result'', JNull)])
      else if s = pl_error_null then
        Inr (JObj [(''jsonrpc'', JStr ''2.0''), (''id'', JNum 1),
                   (''result'', JObj [(''ok'', JBool True)]), (''error'', JNull)])
      else if s = pl_tools then
        Inr (JObj [(''jsonrpc'', JStr ''2.0''), (''id'', JNum 1),
                   (''result'', JObj [(''tools'', JArr [])])])
      else if s = pl_rpc_error then
        Inr (JObj [(''jsonrpc'', JStr ''2.0''), (''id'', JNum 1),
                   (''error'', JObj [(''code'', JNum (- 32601)),
                                     (''message'', JStr ''Method not found'')])])
      else if s = pl_progress then
        Inr (JObj [(''progress'', JNum 1)])
      else Inl (SyntaxError ''Unexpected token''))"

definition sample :: platform where
  "sample = \<lparr>JSON_parse = sample_parse, Number_toString = (\<lambda>n. []), DEBUG_HEADERS = False\<rparr>"

definition sse_response :: "read list \<Rightarrow> response" where
  "sse_response rs =
     \<lparr>status = 200, statusText = ''OK'',
      resp_headers = [(''Content-Type'', ''text/event-stream'')], body = rs\<rparr>"

definition json_response :: "nat \<Rightarrow> string \<Rightarrow> (string \<times> string) list \<Rightarrow> string \<Rightarrow> response" where
  "json_response code reason extra t =
     \<lparr>status = code, statusText = reason,
      resp_headers = (''Content-Type'', ''application/json'') # extra, body = [Chunk t]\<rparr>"

definition sample_config :: serverConfig where
  "sample_config =
     \<lparr>cfg_url = ''https://mcp.example/mcp'',
      cfg_headers = Some [''Authorization'' \<mapsto> ''Bearer t'']\<rparr>"

section \<open>Lines and chunks\<close>

lemma split_nl_not_Nil: "split_nl t \<noteq> []"
  by (induction t) (auto split: list.splits)

lemma complete_lines_Nil: "complete_lines [] = []"
  by (simp add: complete_lines_def)

lemma carry_Nil: "carry [] = []"
  by (simp add: carry_def)

lemma complete_lines_Cons:
  "complete_lines (c # t) =
     (if c = CHR 0x0A then [] # complete_lines t
      else (case complete_lines t of [] \<Rightarrow> [] | l # ls \<Rightarrow> (c # l) # ls))"
proof -
  obtain l ls where sp: "split_nl t = l # ls"
    using split_nl_not_Nil [of t] by (cases "split_nl t") auto
  show ?thesis
    by (cases ls) (simp_all add: complete_lines_def sp)
qed

lemma carry_Cons:
  "carry (c # t) =
     (if c = CHR 0x0A then carry t
      else if complete_lines t = [] then c # carry t else carry t)"
proof -
  obtain l ls where sp: "split_nl t = l # ls"
    using split_nl_not_Nil [of t] by (cases "split_nl t") auto
  show ?thesis
    by (cases ls) (simp_all add: complete_lines_def carry_def sp)
qed

lemma carry_no_complete: "complete_lines t = [] \<Longrightarrow> carry t = t"
  by (induction t) (auto simp: carry_Nil complete_lines_Cons carry_Cons split: if_splits list.splits)

lemma lines_append:
  "complete_lines (a @ b) = complete_lines a @ complete_lines (carry a @ b)
   \<and> carry (a @ b) = carry (carry a @ b)"
proof (induction a)
  case Nil
  show ?case by (simp add: complete_lines_Nil carry_Nil)
next
  case (Cons c a)
  show ?case
  proof (cases "c = CHR 0x0A")
    case True
    with Cons show ?thesis by (simp add: complete_lines_Cons carry_Cons)
  next
    case nl: False
    show ?thesis
    proof (cases "complete_lines a")
      case Nil
      then have "carry a = a" by (rule carry_no_complete)
      with nl Nil show ?thesis by (simp add: complete_lines_Cons carry_Cons)
    next
      case (Cons l ls)
      with nl Cons.IH show ?thesis by (simp add: complete_lines_Cons carry_Cons)
    qed
  qed
qed

lemma complete_lines_append:
  "complete_lines (a @ b) = complete_lines a @ complete_lines (carry a @ b)"
  using lines_append by blast

lemma pop_split_nl: "pop (split_nl t) = (Some (carry t), complete_lines t)"
  by (simp add: pop_def split_nl_not_Nil carry_def complete_lines_def)

section \<open>The loop over the lines\<close>

lemma get_prop_truthy: "truthy err \<Longrightarrow> get_prop err k = Inr (member_of err k)"
  by (cases err) (simp_all add: member_of_def)

lemma envelope_member: "envelope P line = Some p \<Longrightarrow> get_prop p k = Inr (member_of p k)"
  by (cases p) (auto simp: envelope_def member_of_def null_read_def split: if_splits sum.splits)

lemma error_of_no_truthy_error: "\<not> truthy_error P line \<Longrightarrow> error_of P line = None"
  by (simp add: truthy_error_def error_of_def split: option.splits)

lemma retained_of_no_truthy_error:
  "\<not> truthy_error P line \<Longrightarrow> retained_of P line = result_of P line"
  by (simp add: retained_of_def)

lemma retained_of_None: "result_of P line = None \<Longrightarrow> retained_of P line = None"
  by (simp add: retained_of_def)

lemma process_line_eq:
  "process_line P result line =
     (case error_of P line of
        Some m \<Rightarrow> Inl (Error m)
      | None \<Rightarrow> Inr (case retained_of P line of None \<Rightarrow> result | Some r \<Rightarrow> r))"
proof (cases "envelope P line")
  case None
  then show ?thesis
    by (auto simp: process_line_def envelope_def error_of_def result_of_def retained_of_def
        truthy_error_def Let_def split: sum.splits if_splits)
next
  case (Some p)
  then have a: "startsWith line ''data: ''" "trim (drop 6 line) \<noteq> []"
    "JSON_parse P (trim (drop 6 line)) = Inr p" "get_prop p ''jsonrpc'' = Inr (Some (JStr ''2.0''))"
    by (auto simp: envelope_def split: if_splits sum.splits)
  have e: "get_prop p ''error'' = Inr (member_of p ''error'')"
    and r: "get_prop p ''result'' = Inr (member_of p ''result'')"
    using Some by (rule envelope_member)+
  show ?thesis
    using a Some e r
    by (auto simp: process_line_def error_of_def result_of_def retained_of_def truthy_error_def
        retain_def Let_def get_prop_truthy split: option.splits sum.splits)
qed

lemma ToString_own_toString:
  "map_of kvs ''toString'' = Some x \<Longrightarrow> ToString P (JObj kvs) = Inl not_primitive"
  by simp

lemma error_line_skipped:
  assumes "envelope P line = Some p"
    and "member_of p ''error'' = Some err"
    and "truthy err"
    and "message_or P (member_of err ''message'') ''SSE error'' = Inl e"
  shows "process_line P result line = Inr result"
  using assms
  by (simp add: process_line_eq error_of_def retained_of_def truthy_error_def)

lemma process_lines_append:
  "process_lines P r (xs @ ys) =
     (case process_lines P r xs of Inl e \<Rightarrow> Inl e | Inr r' \<Rightarrow> process_lines P r' ys)"
  by (induction xs arbitrary: r) (auto split: sum.splits)

lemma complete_lines_carry: "complete_lines (carry t) = []"
  by (induction t) (auto simp: carry_Nil complete_lines_Nil complete_lines_Cons carry_Cons)

lemma processChunk_outcome:
  "complete_lines buffer = [] \<Longrightarrow>
   fst (processChunk P buffer result (map Chunk cs)) =
     settle (process_lines P result (complete_lines (buffer @ concat cs)))"
proof (induction cs arbitrary: buffer result)
  case Nil
  then show ?case by (simp add: settle_def)
next
  case (Cons c cs)
  have l: "complete_lines (buffer @ c @ concat cs) =
      complete_lines (buffer @ c) @ complete_lines (carry (buffer @ c) @ concat cs)"
    using complete_lines_append [of "buffer @ c" "concat cs"] by simp
  show ?case
  proof (cases "process_lines P result (complete_lines (buffer @ c))")
    case (Inl e)
    then show ?thesis
      by (simp add: pop_split_nl l process_lines_append settle_def)
  next
    case (Inr r)
    then show ?thesis
      using Cons.IH [OF complete_lines_carry, of "buffer @ c" r]
      by (simp add: pop_split_nl l process_lines_append)
  qed
qed

lemma processChunk_rejects:
  "complete_lines buffer = [] \<Longrightarrow>
   process_lines P result (complete_lines (buffer @ concat cs)) = Inl e \<Longrightarrow>
   \<exists>unread. processChunk P buffer result (map Chunk cs @ rest) = (Inl e, unread @ rest)"
proof (induction cs arbitrary: buffer result)
  case Nil
  then show ?case by simp
next
  case (Cons c cs)
  have l: "complete_lines (buffer @ c @ concat cs) =
      complete_lines (buffer @ c) @ complete_lines (carry (buffer @ c) @ concat cs)"
    using complete_lines_append [of "buffer @ c" "concat cs"] by simp
  show ?case
  proof (cases "process_lines P result (complete_lines (buffer @ c))")
    case (Inl e')
    with Cons.prems have "e' = e" by (simp add: l process_lines_append)
    with Inl have "processChunk P buffer result (map Chunk (c # cs) @ rest) =
        (Inl e, map Chunk cs @ rest)"
      by (simp add: pop_split_nl)
    then show ?thesis by blast
  next
    case (Inr r)
    with Cons.prems have "process_lines P r (complete_lines (carry (buffer @ c) @ concat cs)) = Inl e"
      by (simp add: l process_lines_append)
    from Cons.IH [OF complete_lines_carry this] Inr show ?thesis
      by (simp add: pop_split_nl)
  qed
qed

lemma process_lines_no_event:
  "\<forall>x\<in>set ls. result_of P x = None \<and> error_of P x = None \<Longrightarrow> process_lines P r ls = Inr r"
  by (induction ls arbitrary: r) (simp_all add: process_line_eq retained_of_None)

lemma process_lines_no_error:
  "\<forall>x\<in>set ls. error_of P x = None \<Longrightarrow> \<exists>r'. process_lines P r ls = Inr r'"
  by (induction ls arbitrary: r) (simp_all add: process_line_eq)

lemma process_lines_first_error:
  "\<forall>x\<in>set pre. error_of P x = None \<Longrightarrow> error_of P l = Some m \<Longrightarrow>
   process_lines P r (pre @ l # post) = Inl (Error m)"
  by (induction pre arbitrary: r) (simp_all add: process_line_eq)

lemma process_lines_last_result:
  assumes "\<forall>x\<in>set (pre @ l # post). \<not> truthy_error P x"
    and "result_of P l = Some v"
    and "\<forall>x\<in>set post. result_of P x = None"
  shows "process_lines P r (pre @ l # post) = Inr v"
proof -
  have ne: "\<forall>x\<in>set (pre @ l # post). error_of P x = None"
    using assms(1) error_of_no_truthy_error by blast
  obtain r' where pre: "process_lines P r pre = Inr r'"
    using process_lines_no_error [of pre P r] ne by auto
  have post: "process_lines P v post = Inr v"
    using process_lines_no_event [of post P v] ne assms(3) by auto
  have "error_of P l = None" using ne by simp
  moreover have "retained_of P l = Some v"
    using assms(1,2) by (simp add: retained_of_no_truthy_error)
  ultimately show ?thesis
    using pre post by (simp add: process_lines_append process_line_eq)
qed

lemma handleSSEResponse_outcome:
  "fst (handleSSEResponse P (response\<lparr>body := map Chunk cs\<rparr>)) =
     settle (process_lines P JNull (complete_lines (concat cs)))"
  using processChunk_outcome [of "[]" P JNull cs]
  by (simp add: handleSSEResponse_def complete_lines_Nil)

lemma sse_chunking_invariant:
  "concat cs = concat cs' \<Longrightarrow>
   fst (handleSSEResponse P (response\<lparr>body := map Chunk cs\<rparr>)) =
   fst (handleSSEResponse P (response\<lparr>body := map Chunk cs'\<rparr>))"
  by (simp add: handleSSEResponse_outcome)

lemma sse_falsy_result:
  assumes "\<forall>x\<in>set (pre @ l # post). \<not> truthy_error P x"
    and "result_of P l = Some v"
    and "\<forall>x\<in>set post. result_of P x = None"
    and "\<not> truthy v"
    and "complete_lines (concat cs) = pre @ l # post"
  shows "fst (handleSSEResponse P (response\<lparr>body := map Chunk cs\<rparr>)) =
           Inl (Error ''No data received from SSE stream'')"
  using process_lines_last_result [OF assms(1,2,3), of JNull] assms(4,5)
  by (simp add: handleSSEResponse_outcome settle_def)


lemmas sample_defs =
  sample_def sample_parse_def pl_result_def pl_boom_def pl_null_def pl_error_null_def
  pl_tools_def pl_rpc_error_def pl_progress_def LF_def sse_response_def json_response_def

lemmas line_defs =
  complete_lines_def envelope_def result_of_def error_of_def truthy_error_def member_of_def
  message_or_def startsWith_def trim_def is_ws_def

lemmas sse_defs =
  handleSSEResponse_def pop_def process_line_def retain_def Let_def

section \<open>Properties of the SSE aggregation\<close>

text \<open>
  C1, as amended. Take any stream of chunks whose text has, among its complete lines, a
  line \<open>l\<close> with a \<^verbatim>\<open>result\<close> member \<open>v\<close> in its envelope, no line with a
  \<^verbatim>\<open>result\<close> member after \<open>l\<close>, and no line at all, \<open>l\<close> included, whose envelope
  has a truthy \<^verbatim>\<open>error\<close> member. If \<open>v\<close> is truthy, the aggregation resolves with
  \<open>v\<close>, and it does so for every other way of cutting the same text into chunks. A
  cut of the byte stream is a cut of its text: the streaming decoder hands an incomplete
  byte sequence over with the next chunk.
\<close>

theorem sse_last_result:
  assumes "complete_lines (concat cs) = pre @ l # post"
    and "\<forall>x\<in>set (pre @ l # post). \<not> truthy_error P x"
    and "result_of P l = Some v"
    and "\<forall>x\<in>set post. result_of P x = None"
    and "truthy v"
  shows "fst (handleSSEResponse P (response\<lparr>body := map Chunk cs\<rparr>)) = Inr v
    \<and> (\<forall>cs'. concat cs' = concat cs \<longrightarrow>
          fst (handleSSEResponse P (response\<lparr>body := map Chunk cs'\<rparr>)) = Inr v)"
proof -
  have "process_lines P JNull (complete_lines (concat cs)) = Inr v"
    using process_lines_last_result [OF assms(2,3,4)] assms(1) by simp
  then have "\<And>cs'. concat cs' = concat cs \<Longrightarrow>
      fst (handleSSEResponse P (response\<lparr>body := map Chunk cs'\<rparr>)) = Inr v"
    using assms(5) by (simp add: handleSSEResponse_outcome settle_def)
  then show ?thesis by blast
qed

theorem sse_last_result_witness:
  "complete_lines (concat [''data: '' @ take 20 pl_result, drop 20 pl_result @ LF @ LF]) =
     [] @ (''data: '' @ pl_result) # [[]]
   \<and> \<not> truthy_error sample (''data: '' @ pl_result) \<and> \<not> truthy_error sample []
   \<and> result_of sample (''data: '' @ pl_result) = Some (JObj [(''ok'', JBool True)])
   \<and> result_of sample [] = None
   \<and> truthy (JObj [(''ok'', JBool True)])
   \<and> fst (handleSSEResponse sample
        (sse_response [Chunk (''data: '' @ take 20 pl_result), Chunk (drop 20 pl_result @ LF @ LF)])) =
       Inr (JObj [(''ok'', JBool True)])
   \<and> fst (handleSSEResponse sample (sse_response [Chunk (''data: '' @ pl_result @ LF @ LF)])) =
       Inr (JObj [(''ok'', JBool True)])"
proof -
  let ?cs = "[''data: '' @ take 20 pl_result, drop 20 pl_result @ LF @ LF]"
  let ?l = "''data: '' @ pl_result"
  let ?v = "JObj [(''ok'', JBool True)]"
  have h1: "complete_lines (concat ?cs) = [] @ ?l # [[]]"
    by (simp add: sample_defs line_defs)
  have e1: "\<not> truthy_error sample ?l" and e2: "\<not> truthy_error sample []"
    by (simp_all add: sample_defs line_defs)
  have r1: "result_of sample ?l = Some ?v" and r2: "result_of sample [] = None"
    by (simp_all add: sample_defs line_defs)
  have h2: "\<forall>x\<in>set ([] @ ?l # [[]]). \<not> truthy_error sample x"
    using e1 e2 by simp
  have h4: "\<forall>x\<in>set [[]]. result_of sample x = None"
    using r2 by simp
  have h5: "truthy ?v" by simp
  have c: "concat [''data: '' @ pl_result @ LF @ LF] = concat ?cs"
    by (simp add: sample_defs)
  from sse_last_result [OF h1 h2 r1 h4 h5, where response = "sse_response []"] c
  have "fst (handleSSEResponse sample (sse_response [] \<lparr>body := map Chunk ?cs\<rparr>)) = Inr ?v"
    and "fst (handleSSEResponse sample
           (sse_response [] \<lparr>body := map Chunk [''data: '' @ pl_result @ LF @ LF]\<rparr>)) = Inr ?v"
    by blast+
  then show ?thesis
    using h1 e1 e2 r1 r2 by (simp add: sse_response_def)
qed

text \<open>
  C1 as stated fails: when the complete lines are an error event followed by a result
  event, the stream ends in a result-bearing line with no error after it, and the
  aggregation rejects with the error instead of returning that result.
\<close>

theorem sse_last_result_counterexample:
  "complete_lines (''data: '' @ pl_boom @ LF @ ''data: '' @ pl_result @ LF) =
     [''data: '' @ pl_boom, ''data: '' @ pl_result]
   \<and> result_of sample (''data: '' @ pl_result) = Some (JObj [(''ok'', JBool True)])
   \<and> \<not> truthy_error sample (''data: '' @ pl_result)
   \<and> fst (handleSSEResponse sample
        (sse_response [Chunk (''data: '' @ pl_boom @ LF @ ''data: '' @ pl_result @ LF)])) =
       Inl (Error ''boom'')
   \<and> fst (handleSSEResponse sample
        (sse_response [Chunk (''data: '' @ pl_boom @ LF @ ''data: '' @ pl_result @ LF)])) \<noteq>
       Inr (JObj [(''ok'', JBool True)])"
  by (simp add: sample_defs line_defs sse_defs)

text \<open>
  C2, as amended. Take any stream whose text has, among its complete lines, a line whose
  envelope has a truthy \<^verbatim>\<open>error\<close> member, with no such line before it (lines with a
  \<^verbatim>\<open>result\<close> member may come before it), and let the message of that error, which is
  its \<^verbatim>\<open>message\<close> member, or \<^verbatim>\<open>SSE error\<close> when that member is absent or falsy,
  convert to the string \<open>m\<close> (a string converts to itself). Whatever chunks complete that
  line, the aggregation rejects with an \<^verbatim>\<open>Error\<close> whose message is \<open>m\<close>, and every
  read after those chunks is never asked of the reader.
\<close>

theorem sse_error_stops:
  assumes "complete_lines (concat cs) = pre @ l # post"
    and "\<forall>x\<in>set pre. \<not> truthy_error P x"
    and "envelope P l = Some p"
    and "member_of p ''error'' = Some err"
    and "truthy err"
    and "message_or P (member_of err ''message'') ''SSE error'' = Inr m"
  shows "\<exists>unread. handleSSEResponse P (response\<lparr>body := map Chunk cs @ rest\<rparr>) =
           (Inl (Error m), unread @ rest)"
proof -
  have pre: "\<forall>x\<in>set pre. error_of P x = None"
    using assms(2) error_of_no_truthy_error by blast
  have "error_of P l = Some m"
    using assms(3,4,5,6) by (simp add: error_of_def)
  then have "process_lines P JNull (complete_lines ([] @ concat cs)) = Inl (Error m)"
    using process_lines_first_error [OF pre] assms(1) by simp
  from processChunk_rejects [OF complete_lines_Nil this]
  show ?thesis by (simp add: handleSSEResponse_def)
qed

theorem sse_error_stops_witness:
  "complete_lines (concat [''data: '' @ pl_result @ LF @ LF @ ''data: '', pl_boom @ LF]) =
     [''data: '' @ pl_result, []] @ (''data: '' @ pl_boom) # []
   \<and> \<not> truthy_error sample (''data: '' @ pl_result) \<and> \<not> truthy_error sample []
   \<and> result_of sample (''data: '' @ pl_result) = Some (JObj [(''ok'', JBool True)])
   \<and> envelope sample (''data: '' @ pl_boom) =
       Some (JObj [(''jsonrpc'', JStr ''2.0''), (''id'', JNum 2),
                   (''error'', JObj [(''message'', JStr ''boom'')])])
   \<and> truthy (JObj [(''message'', JStr ''boom'')])
   \<and> message_or sample (member_of (JObj [(''message'', JStr ''boom'')]) ''message'') ''SSE error'' =
       Inr ''boom''
   \<and> handleSSEResponse sample
        (sse_response [Chunk (''data: '' @ pl_result @ LF @ LF @ ''data: ''), Chunk (pl_boom @ LF),
                       Chunk (''data: '' @ pl_result @ LF), ReadError (TypeError ''terminated'')]) =
       (Inl (Error ''boom''),
        [Chunk (''data: '' @ pl_result @ LF), ReadError (TypeError ''terminated'')])"
proof -
  let ?cs = "[''data: '' @ pl_result @ LF @ LF @ ''data: '', pl_boom @ LF]"
  let ?pre = "[''data: '' @ pl_result, []]"
  let ?l = "''data: '' @ pl_boom"
  let ?err = "JObj [(''message'', JStr ''boom'')]"
  let ?p = "JObj [(''jsonrpc'', JStr ''2.0''), (''id'', JNum 2), (''error'', ?err)]"
  let ?rest = "[Chunk (''data: '' @ pl_result @ LF), ReadError (TypeError ''terminated'')]"
  have h1: "complete_lines (concat ?cs) = ?pre @ ?l # []"
    by (simp add: sample_defs line_defs)
  have e1: "\<not> truthy_error sample (''data: '' @ pl_result)" and e2: "\<not> truthy_error sample []"
    by (simp_all add: sample_defs line_defs)
  have r1: "result_of sample (''data: '' @ pl_result) = Some (JObj [(''ok'', JBool True)])"
    by (simp add: sample_defs line_defs)
  have h2: "\<forall>x\<in>set ?pre. \<not> truthy_error sample x"
    using e1 e2 by simp
  have h3: "envelope sample ?l = Some ?p"
    by (simp add: sample_defs line_defs)
  have h4: "member_of ?p ''error'' = Some ?err"
    by (simp add: member_of_def)
  have h5: "truthy ?err" by simp
  have h6: "message_or sample (member_of ?err ''message'') ''SSE error'' = Inr ''boom''"
    by (simp add: member_of_def message_or_def)
  from sse_error_stops [OF h1 h2 h3 h4 h5 h6, where response = "sse_response []" and rest = ?rest]
  obtain unread where u: "handleSSEResponse sample (sse_response (map Chunk ?cs @ ?rest)) =
      (Inl (Error ''boom''), unread @ ?rest)"
    by (auto simp: sse_response_def)
  have "handleSSEResponse sample (sse_response (map Chunk ?cs @ ?rest)) = (Inl (Error ''boom''), ?rest)"
    by (simp add: sample_defs line_defs sse_defs)
  then show ?thesis
    using h1 e1 e2 r1 h3 h6 u by simp
qed

text \<open>
  C2 as stated fails: an envelope that carries \<^verbatim>\<open>"error": null\<close> beside its result
  has an \<^verbatim>\<open>error\<close> member, and the aggregation resolves with the result.
\<close>

theorem sse_error_stops_counterexample:
  "envelope sample (''data: '' @ pl_error_null) =
     Some (JObj [(''jsonrpc'', JStr ''2.0''), (''id'', JNum 1),
                 (''result'', JObj [(''ok'', JBool True)]), (''error'', JNull)])
   \<and> member_of (JObj [(''jsonrpc'', JStr ''2.0''), (''id'', JNum 1),
                      (''result'', JObj [(''ok'', JBool True)]), (''error'', JNull)]) ''error'' =
       Some JNull
   \<and> handleSSEResponse sample (sse_response [Chunk (''data: '' @ pl_error_null @ LF @ LF)]) =
       (Inr (JObj [(''ok'', JBool True)]), [])"
  by (simp add: sample_defs line_defs sse_defs)

text \<open>
  C9. When no complete line of the stream has an envelope with a \<^verbatim>\<open>result\<close> member or
  with a truthy \<^verbatim>\<open>error\<close> member (as when no line is a JSON-RPC envelope at all: no
  \<^verbatim>\<open>data: \<close> line, payloads that are not JSON, JSON without the version marker), the
  aggregation rejects with \<^verbatim>\<open>No data received from SSE stream\<close>.
\<close>

theorem sse_no_data:
  assumes "\<forall>x\<in>set (complete_lines (concat cs)). result_of P x = None \<and> error_of P x = None"
  shows "fst (handleSSEResponse P (response\<lparr>body := map Chunk cs\<rparr>)) =
           Inl (Error ''No data received from SSE stream'')"
  using process_lines_no_event [OF assms, of JNull]
  by (simp add: handleSSEResponse_outcome settle_def)

theorem sse_no_data_witness:
  "complete_lines (concat ['': ping'' @ LF @ ''data: pi'', ''ng'' @ LF @ ''data: '' @ pl_progress @ LF]) =
     ['': ping'', ''data: ping'', ''data: '' @ pl_progress]
   \<and> envelope sample '': ping'' = None
   \<and> envelope sample ''data: ping'' = None
   \<and> envelope sample (''data: '' @ pl_progress) = None
   \<and> fst (handleSSEResponse sample
        (sse_response [Chunk ('': ping'' @ LF @ ''data: pi''),
                       Chunk (''ng'' @ LF @ ''data: '' @ pl_progress @ LF)])) =
       Inl (Error ''No data received from SSE stream'')"
proof -
  let ?cs = "['': ping'' @ LF @ ''data: pi'', ''ng'' @ LF @ ''data: '' @ pl_progress @ LF]"
  have h1: "complete_lines (concat ?cs) = ['': ping'', ''data: ping'', ''data: '' @ pl_progress]"
    by (simp add: sample_defs line_defs)
  have v: "envelope sample '': ping'' = None" "envelope sample ''data: ping'' = None"
    "envelope sample (''data: '' @ pl_progress) = None"
    by (simp_all add: sample_defs line_defs)
  have h: "\<forall>x\<in>set (complete_lines (concat ?cs)). result_of sample x = None \<and> error_of sample x = None"
    unfolding h1 using v by (simp add: result_of_def error_of_def)
  from sse_no_data [OF h, where response = "sse_response []"] show ?thesis
    using h1 v by (simp add: sse_response_def)
qed

section \<open>The client's calls\<close>

lemma after_sendRequest:
  "after (sendRequest P c m params f) = c\<lparr>requestId := requestId c + 1\<rparr>"
  by (simp add: sendRequest_def getNextRequestId_def Let_def split: prod.splits)

lemma sent_sendRequest:
  "sent (sendRequest P c m params f) =
     [\<lparr>req_url = url c, http_method = ''POST'', req_headers = requestHeaders c,
       req_body = rpc_request (requestId c + 1) m params\<rparr>]"
  by (simp add: sendRequest_def getNextRequestId_def Let_def split: prod.splits)

lemma outcome_sendRequest:
  "outcome (sendRequest P c m params f) =
     (case origin P f of
        Inl e \<Rightarrow> Inl (Error (''MCP request failed: '' @ message e))
      | Inr v \<Rightarrow> Inr v)"
  by (simp add: sendRequest_def getNextRequestId_def origin_def Let_def
      split: prod.splits sum.splits)

lemma capture_sessionId:
  "sessionId (fst (capture c response)) =
     (case headers_get (resp_headers response) ''mcp-session-id'' of
        None \<Rightarrow> sessionId c
      | Some s \<Rightarrow> if s \<noteq> [] then Some s else sessionId c)"
  by (simp add: capture_def split: option.splits)

lemma capture_other:
  "requestId (fst (capture c response)) = requestId c"
  "headers (fst (capture c response)) = headers c"
  "url (fst (capture c response)) = url c"
  by (simp_all add: capture_def split: option.splits)

lemma after_initialize:
  "after (initialize P c f f') =
     (case f of
        Inl e \<Rightarrow> c\<lparr>requestId := requestId c + 1\<rparr>
      | Inr response \<Rightarrow> fst (capture (c\<lparr>requestId := requestId c + 1\<rparr>) response))"
  by (simp add: initialize_def getNextRequestId_def Let_def split: prod.splits sum.splits)

lemma outcome_initialize:
  "outcome (initialize P c f f') =
     (case origin P f of
        Inl e \<Rightarrow> Inl e
      | Inr v \<Rightarrow> Inr (v, sessionId (after (initialize P c f f'))))"
  by (simp add: initialize_def getNextRequestId_def origin_def Let_def
      split: prod.splits sum.splits)

lemma sent_initialize:
  "sent (initialize P c f f') =
     \<lparr>req_url = url c, http_method = ''POST'', req_headers = base_headers c,
      req_body = rpc_request (requestId c + 1) ''initialize''
                   (JObj [(''protocolVersion'', JStr ''2025-06-18'')])\<rparr> #
     (case origin P f of
        Inl e \<Rightarrow> []
      | Inr v \<Rightarrow>
         [\<lparr>req_url = url c, http_method = ''POST'', req_headers = base_headers c,
           req_body = rpc_notification ''notifications/initialized'' (JObj [])\<rparr>])"
  by (simp add: initialize_def getNextRequestId_def origin_def Let_def sendNotification_def
      capture_def base_headers_def split: prod.splits sum.splits option.splits)

lemma request_id_rpc_request:
  "request_id \<lparr>req_url = u, http_method = h, req_headers = hs,
      req_body = rpc_request i m params\<rparr> = Some (of_nat i)"
  by (simp add: request_id_def rpc_request_def member_of_def)

lemma request_id_rpc_notification:
  "request_id \<lparr>req_url = u, http_method = h, req_headers = hs,
      req_body = rpc_notification m params\<rparr> = None"
  by (simp add: request_id_def rpc_notification_def member_of_def)

section \<open>Properties of the client\<close>

lemma step_requestId: "requestId (fst (step P c x)) = requestId c + 1"
  by (cases x)
     (simp_all add: listTools_def callTool_def after_sendRequest after_initialize capture_other
        split: sum.splits)

lemma step_ids: "List.map_filter request_id (snd (step P c x)) = [of_nat (requestId c + 1)]"
  by (cases x)
     (simp_all add: listTools_def callTool_def sent_sendRequest sent_initialize
        request_id_rpc_request request_id_rpc_notification split: sum.splits)

lemma map_filter_append:
  "List.map_filter f (xs @ ys) = List.map_filter f xs @ List.map_filter f ys"
  by (simp add: List.map_filter_def)

lemma run_ids:
  "List.map_filter request_id (run P c calls) =
     map of_nat [requestId c + 1 ..< requestId c + 1 + length calls]"
proof (induction calls arbitrary: c)
  case Nil
  show ?case by simp
next
  case (Cons x xs)
  have "[requestId c + 1 ..< requestId c + 1 + length (x # xs)] =
      (requestId c + 1) # [requestId c + 2 ..< requestId c + 2 + length xs]"
    by (simp add: upt_conv_Cons del: upt_Suc)
  then show ?case
    using Cons.IH [of "fst (step P c x)"]
    by (simp add: map_filter_append step_ids step_requestId del: upt_Suc)
qed

text \<open>
  C4. On a client fresh from its constructor, whatever calls are made and whatever the
  network answers to each (a failed fetch, an error status, a JSON-RPC error or a
  result), the ids of the requests sent are 1, 2, ..., one per call, in this order: they
  increase strictly and none occurs twice.
\<close>

theorem request_ids_increase:
  "List.map_filter request_id (run P (MCPClient serverConfig sid) calls) =
     map of_nat [1 ..< Suc (length calls)]
   \<and> sorted_wrt (<) (List.map_filter request_id (run P (MCPClient serverConfig sid) calls))
   \<and> distinct (List.map_filter request_id (run P (MCPClient serverConfig sid) calls))"
proof -
  have ids: "List.map_filter request_id (run P (MCPClient serverConfig sid) calls) =
      map of_nat [1 ..< Suc (length calls)]"
    using run_ids [of P "MCPClient serverConfig sid" calls] by (simp add: MCPClient_def)
  have "sorted_wrt (<) (map (of_nat :: nat \<Rightarrow> rat) [1 ..< Suc (length calls)])"
    by (simp add: sorted_wrt_map del: upt_Suc)
  moreover have "distinct (map (of_nat :: nat \<Rightarrow> rat) [1 ..< Suc (length calls)])"
    by (simp add: distinct_map inj_on_def del: upt_Suc)
  ultimately show ?thesis using ids by simp
qed

theorem request_ids_increase_witness:
  "List.map_filter request_id
     (run sample (MCPClient sample_config None)
        [Initialize (Inr (json_response 200 ''OK'' [] pl_tools)) (Inl (TypeError ''fetch failed'')),
         ListTools None (Inl (TypeError ''fetch failed'')),
         CallTool ''get_weather'' (JObj []) (Inr (json_response 500 ''Internal Server Error'' [] ''oops'')),
         ListTools None (Inr (json_response 200 ''OK'' [] pl_tools))]) =
   [1, 2, 3, 4]"
proof -
  let ?calls =
    "[Initialize (Inr (json_response 200 ''OK'' [] pl_tools)) (Inl (TypeError ''fetch failed'')),
      ListTools None (Inl (TypeError ''fetch failed'')),
      CallTool ''get_weather'' (JObj []) (Inr (json_response 500 ''Internal Server Error'' [] ''oops'')),
      ListTools None (Inr (json_response 200 ''OK'' [] pl_tools))]"
  have "List.map_filter request_id (run sample (MCPClient sample_config None) ?calls) =
      map of_nat [1 ..< Suc (length ?calls)]"
    using request_ids_increase [of sample sample_config None ?calls] by (rule conjunct1)
  also have "\<dots> = [1, 2, 3, 4]"
    by (simp add: upt_conv_Cons)
  finally show ?thesis .
qed

lemma base_headers_requestId [simp]:
  "base_headers (c\<lparr>requestId := n\<rparr>) = base_headers c"
  by (simp add: base_headers_def)

lemma requestHeaders_requestId [simp]:
  "requestHeaders (c\<lparr>requestId := n\<rparr>) = requestHeaders c"
  by (simp add: requestHeaders_def split: option.splits)

lemma step_request_call:
  "is_request_call x \<Longrightarrow>
   (\<forall>rq\<in>set (snd (step P c x)). req_headers rq = requestHeaders c)
   \<and> requestHeaders (fst (step P c x)) = requestHeaders c"
  by (cases x) (simp_all add: listTools_def callTool_def sent_sendRequest after_sendRequest)

lemma run_request_calls:
  "list_all is_request_call calls \<Longrightarrow>
   \<forall>rq\<in>set (run P c calls). req_headers rq = requestHeaders c"
proof (induction calls arbitrary: c)
  case Nil
  show ?case by simp
next
  case (Cons x xs)
  then have x: "is_request_call x" and xs: "list_all is_request_call xs" by simp_all
  from step_request_call [OF x, of P c] Cons.IH [OF xs, of "fst (step P c x)"]
  show ?case by auto
qed

lemmas http_defs =
  headers_get_def lower_def is_event_stream_def ok_def response_text_def
  response_json_def read_response_def capture_def origin_def base_headers_def
  requestHeaders_def MCPClient_def sample_config_def

text \<open>
  C3, as amended. Let \<open>initialize\<close> receive a response, and let any number of
  \<open>listTools\<close> and \<open>callTool\<close> calls (each one \<open>sendRequest\<close>) follow on the same
  instance. If the response has a header \<^verbatim>\<open>mcp-session-id\<close> (in any letter case) with a
  non-empty value \<open>S\<close>, the session id is \<open>S\<close> afterwards and every one of these
  requests has the header \<^verbatim>\<open>Mcp-Session-Id: S\<close>. If the response has no such header,
  or an empty one, the session id is left as it was, and every one of these requests has
  the headers that \<open>sendRequest\<close> built on the client before \<open>initialize\<close>; when
  the client had no session id, it stays unset and every one of these requests has
  exactly the content type and the configured headers: no session header is added.
\<close>

theorem initialize_session:
  assumes "list_all is_request_call calls"
  shows "(headers_get (resp_headers response) ''mcp-session-id'' = Some S \<and> S \<noteq> [] \<longrightarrow>
            sessionId (after (initialize P c (Inr response) f')) = Some S
          \<and> (\<forall>rq\<in>set (run P (after (initialize P c (Inr response) f')) calls).
                req_headers rq ''Mcp-Session-Id'' = Some S))
       \<and> (headers_get (resp_headers response) ''mcp-session-id'' = None
           \<or> headers_get (resp_headers response) ''mcp-session-id'' = Some [] \<longrightarrow>
            sessionId (after (initialize P c (Inr response) f')) = sessionId c
          \<and> (\<forall>rq\<in>set (run P (after (initialize P c (Inr response) f')) calls).
                req_headers rq = requestHeaders c))
       \<and> ((headers_get (resp_headers response) ''mcp-session-id'' = None
            \<or> headers_get (resp_headers response) ''mcp-session-id'' = Some [])
           \<and> sessionId c = None \<longrightarrow>
            sessionId (after (initialize P c (Inr response) f')) = None
          \<and> (\<forall>rq\<in>set (run P (after (initialize P c (Inr response) f')) calls).
                req_headers rq = [''Content-Type'' \<mapsto> ''application/json''] ++ headers c))"
proof -
  let ?c' = "after (initialize P c (Inr response) f')"
  have hs: "headers ?c' = headers c"
    by (simp add: after_initialize capture_other)
  have all: "\<forall>rq\<in>set (run P ?c' calls). req_headers rq = requestHeaders ?c'"
    using run_request_calls [OF assms] by blast
  have a: "sessionId ?c' = Some S \<and> (\<forall>rq\<in>set (run P ?c' calls). req_headers rq ''Mcp-Session-Id'' = Some S)"
    if "headers_get (resp_headers response) ''mcp-session-id'' = Some S" "S \<noteq> []"
  proof -
    have s: "sessionId ?c' = Some S"
      using that by (simp add: after_initialize capture_sessionId)
    then have "requestHeaders ?c' ''Mcp-Session-Id'' = Some S"
      using that(2) by (simp add: requestHeaders_def)
    with s all show ?thesis by simp
  qed
  have b: "sessionId ?c' = sessionId c \<and> (\<forall>rq\<in>set (run P ?c' calls). req_headers rq = requestHeaders c)"
    if "headers_get (resp_headers response) ''mcp-session-id'' = None
        \<or> headers_get (resp_headers response) ''mcp-session-id'' = Some []"
  proof -
    have s: "sessionId ?c' = sessionId c"
      using that by (auto simp: after_initialize capture_sessionId)
    then have "requestHeaders ?c' = requestHeaders c"
      using hs by (simp add: requestHeaders_def base_headers_def split: option.splits)
    with s all show ?thesis by simp
  qed
  have c: "sessionId ?c' = None
      \<and> (\<forall>rq\<in>set (run P ?c' calls). req_headers rq = [''Content-Type'' \<mapsto> ''application/json''] ++ headers c)"
    if "headers_get (resp_headers response) ''mcp-session-id'' = None
        \<or> headers_get (resp_headers response) ''mcp-session-id'' = Some []" "sessionId c = None"
  proof -
    have "requestHeaders c = [''Content-Type'' \<mapsto> ''application/json''] ++ headers c"
      using that(2) by (simp add: requestHeaders_def base_headers_def)
    with b [OF that(1)] that(2) show ?thesis by simp
  qed
  from a b c show ?thesis by blast
qed

theorem initialize_session_witness:
  "list_all is_request_call
     [ListTools None (Inr (json_response 200 ''OK'' [] pl_tools)),
      CallTool ''get_weather'' (JObj []) (Inl (TypeError ''fetch failed''))]
   \<and> headers_get (resp_headers (json_response 200 ''OK'' [(''MCP-Session-Id'', ''s-1'')] pl_tools))
        ''mcp-session-id'' = Some ''s-1''
   \<and> sessionId (after (initialize sample (MCPClient sample_config None)
        (Inr (json_response 200 ''OK'' [(''MCP-Session-Id'', ''s-1'')] pl_tools))
        (Inl (TypeError ''fetch failed'')))) = Some ''s-1''
   \<and> map (\<lambda>rq. req_headers rq ''Mcp-Session-Id'')
        (run sample (after (initialize sample (MCPClient sample_config None)
             (Inr (json_response 200 ''OK'' [(''MCP-Session-Id'', ''s-1'')] pl_tools))
             (Inl (TypeError ''fetch failed''))))
           [ListTools None (Inr (json_response 200 ''OK'' [] pl_tools)),
            CallTool ''get_weather'' (JObj []) (Inl (TypeError ''fetch failed''))]) =
       [Some ''s-1'', Some ''s-1'']
   \<and> headers_get (resp_headers (json_response 200 ''OK'' [] pl_tools)) ''mcp-session-id'' = None
   \<and> sessionId (MCPClient sample_config None) = None
   \<and> sessionId (after (initialize sample (MCPClient sample_config None)
        (Inr (json_response 200 ''OK'' [] pl_tools)) (Inl (TypeError ''fetch failed'')))) = None
   \<and> map (\<lambda>rq. req_headers rq ''Mcp-Session-Id'')
        (run sample (after (initialize sample (MCPClient sample_config None)
             (Inr (json_response 200 ''OK'' [] pl_tools)) (Inl (TypeError ''fetch failed''))))
           [ListTools None (Inr (json_response 200 ''OK'' [] pl_tools)),
            CallTool ''get_weather'' (JObj []) (Inl (TypeError ''fetch failed''))]) =
       [None, None]
   \<and> sessionId (MCPClient sample_config (Some ''held'')) = Some ''held''
   \<and> sessionId (after (initialize sample (MCPClient sample_config (Some ''held''))
        (Inr (json_response 200 ''OK'' [] pl_tools)) (Inl (TypeError ''fetch failed'')))) = Some ''held''
   \<and> map (\<lambda>rq. req_headers rq ''Mcp-Session-Id'')
        (run sample (after (initialize sample (MCPClient sample_config (Some ''held''))
             (Inr (json_response 200 ''OK'' [] pl_tools)) (Inl (TypeError ''fetch failed''))))
           [ListTools None (Inr (json_response 200 ''OK'' [] pl_tools)),
            CallTool ''get_weather'' (JObj []) (Inl (TypeError ''fetch failed''))]) =
       [Some ''held'', Some ''held'']"
proof -
  let ?calls = "[ListTools None (Inr (json_response 200 ''OK'' [] pl_tools)),
      CallTool ''get_weather'' (JObj []) (Inl (TypeError ''fetch failed''))]"
  let ?c = "MCPClient sample_config None"
  let ?d = "MCPClient sample_config (Some ''held'')"
  let ?r1 = "json_response 200 ''OK'' [(''MCP-Session-Id'', ''s-1'')] pl_tools"
  let ?r0 = "json_response 200 ''OK'' [] pl_tools"
  let ?f = "Inl (TypeError ''fetch failed'') :: error + response"
  have calls: "list_all is_request_call ?calls" by simp
  have h1: "headers_get (resp_headers ?r1) ''mcp-session-id'' = Some ''s-1''"
    by (simp add: json_response_def http_defs)
  have h0: "headers_get (resp_headers ?r0) ''mcp-session-id'' = None"
    by (simp add: json_response_def http_defs)
  have c0: "sessionId ?c = None" by (simp add: MCPClient_def)
  have d0: "sessionId ?d = Some ''held''" by (simp add: MCPClient_def)
  have len: "length (run sample c' ?calls) = 2" for c'
    by (simp add: listTools_def callTool_def sent_sendRequest)
  have two: "map g xs = [v, v]" if "length xs = 2" "\<forall>x\<in>set xs. g x = v"
    for g :: "request \<Rightarrow> string option" and xs v
    using that by (cases xs; cases "tl xs") auto
  have ne: "''s-1'' \<noteq> []" by simp
  from initialize_session [OF calls, of ?r1 "''s-1''" sample ?c ?f] h1 ne
  have a: "sessionId (after (initialize sample ?c (Inr ?r1) ?f)) = Some ''s-1''"
    and a': "\<forall>rq\<in>set (run sample (after (initialize sample ?c (Inr ?r1) ?f)) ?calls).
          req_headers rq ''Mcp-Session-Id'' = Some ''s-1''"
    by blast+
  from initialize_session [OF calls, of ?r0 S sample ?c ?f] h0 c0
  have b: "sessionId (after (initialize sample ?c (Inr ?r0) ?f)) = None"
    and "\<forall>rq\<in>set (run sample (after (initialize sample ?c (Inr ?r0) ?f)) ?calls).
          req_headers rq = [''Content-Type'' \<mapsto> ''application/json''] ++ headers ?c"
    by blast+
  then have b': "\<forall>rq\<in>set (run sample (after (initialize sample ?c (Inr ?r0) ?f)) ?calls).
          req_headers rq ''Mcp-Session-Id'' = None"
    by (simp add: MCPClient_def sample_config_def map_add_def)
  from initialize_session [OF calls, of ?r0 S sample ?d ?f] h0
  have d: "sessionId (after (initialize sample ?d (Inr ?r0) ?f)) = sessionId ?d"
    and "\<forall>rq\<in>set (run sample (after (initialize sample ?d (Inr ?r0) ?f)) ?calls).
          req_headers rq = requestHeaders ?d"
    by blast+
  then have d': "\<forall>rq\<in>set (run sample (after (initialize sample ?d (Inr ?r0) ?f)) ?calls).
          req_headers rq ''Mcp-Session-Id'' = Some ''held''"
    by (simp add: requestHeaders_def MCPClient_def)
  show ?thesis
    using calls h1 h0 c0 d0 a b d two [OF len a'] two [OF len b'] two [OF len d'] by simp
qed

text \<open>
  C3 as stated fails: a client constructed with a session id keeps it when the response
  to \<open>initialize\<close> has no session header, and the next request carries it; and a
  session header with an empty value is not captured.
\<close>

theorem initialize_session_counterexample:
  "headers_get (resp_headers (json_response 200 ''OK'' [] pl_tools)) ''mcp-session-id'' = None
   \<and> sessionId (after (initialize sample (MCPClient sample_config (Some ''abc''))
        (Inr (json_response 200 ''OK'' [] pl_tools)) (Inl (TypeError ''fetch failed'')))) = Some ''abc''
   \<and> map (\<lambda>rq. req_headers rq ''Mcp-Session-Id'')
        (sent (listTools sample
           (after (initialize sample (MCPClient sample_config (Some ''abc''))
              (Inr (json_response 200 ''OK'' [] pl_tools)) (Inl (TypeError ''fetch failed''))))
           None (Inr (json_response 200 ''OK'' [] pl_tools)))) = [Some ''abc'']
   \<and> headers_get (resp_headers (json_response 200 ''OK'' [(''mcp-session-id'', [])] pl_tools))
        ''mcp-session-id'' = Some []
   \<and> sessionId (after (initialize sample (MCPClient sample_config None)
        (Inr (json_response 200 ''OK'' [(''mcp-session-id'', [])] pl_tools))
        (Inl (TypeError ''fetch failed'')))) = None"
  by (simp add: after_initialize capture_sessionId listTools_def sent_sendRequest
      json_response_def http_defs)

text \<open>
  C5, as amended. A configured header is sent with its configured value by
  \<open>sendRequest\<close> unless it is named \<^verbatim>\<open>Mcp-Session-Id\<close> and the client holds a
  non-empty session id: the configured value replaces the fixed \<^verbatim>\<open>Content-Type\<close>, and
  a held session id replaces a configured \<^verbatim>\<open>Mcp-Session-Id\<close>. Both requests of
  \<open>initialize\<close> send every configured header with its configured value. Names are
  compared as the keys of the header object are, letter case included.
\<close>

theorem configured_headers:
  assumes "headers c k = Some v"
  shows "(k \<noteq> ''Mcp-Session-Id'' \<or> sessionId c = None \<or> sessionId c = Some [] \<longrightarrow>
            map (\<lambda>rq. req_headers rq k) (sent (sendRequest P c m params f)) = [Some v])
       \<and> (\<forall>s. sessionId c = Some s \<and> s \<noteq> [] \<longrightarrow>
            map (\<lambda>rq. req_headers rq ''Mcp-Session-Id'') (sent (sendRequest P c m params f)) = [Some s])
       \<and> (\<forall>rq\<in>set (sent (initialize P c f f')). req_headers rq k = Some v)"
proof -
  have b: "base_headers c k = Some v"
    using assms by (simp add: base_headers_def map_add_def)
  have 1: "map (\<lambda>rq. req_headers rq k) (sent (sendRequest P c m params f)) = [Some v]"
    if "k \<noteq> ''Mcp-Session-Id'' \<or> sessionId c = None \<or> sessionId c = Some []"
    using that b by (auto simp: sent_sendRequest requestHeaders_def split: option.splits)
  have 2: "map (\<lambda>rq. req_headers rq ''Mcp-Session-Id'') (sent (sendRequest P c m params f)) = [Some s]"
    if "sessionId c = Some s \<and> s \<noteq> []" for s
    using that by (simp add: sent_sendRequest requestHeaders_def)
  have 3: "\<forall>rq\<in>set (sent (initialize P c f f')). req_headers rq k = Some v"
    using b by (simp add: sent_initialize split: sum.splits)
  from 1 2 3 show ?thesis by blast
qed

theorem configured_headers_witness:
  "headers (MCPClient \<lparr>cfg_url = ''https://mcp.example/mcp'',
                       cfg_headers = Some [''Content-Type'' \<mapsto> ''text/plain'']\<rparr> (Some ''s-1''))
     ''Content-Type'' = Some ''text/plain''
   \<and> map (\<lambda>rq. req_headers rq ''Content-Type'')
        (sent (sendRequest sample
           (MCPClient \<lparr>cfg_url = ''https://mcp.example/mcp'',
                        cfg_headers = Some [''Content-Type'' \<mapsto> ''text/plain'']\<rparr> (Some ''s-1''))
           ''tools/list'' (JObj []) (Inl (TypeError ''fetch failed'')))) = [Some ''text/plain'']
   \<and> map (\<lambda>rq. req_headers rq ''Mcp-Session-Id'')
        (sent (sendRequest sample
           (MCPClient \<lparr>cfg_url = ''https://mcp.example/mcp'',
                        cfg_headers = Some [''Content-Type'' \<mapsto> ''text/plain'']\<rparr> (Some ''s-1''))
           ''tools/list'' (JObj []) (Inl (TypeError ''fetch failed'')))) = [Some ''s-1'']
   \<and> map (\<lambda>rq. req_headers rq ''Content-Type'')
        (sent (initialize sample
           (MCPClient \<lparr>cfg_url = ''https://mcp.example/mcp'',
                        cfg_headers = Some [''Content-Type'' \<mapsto> ''text/plain'']\<rparr> (Some ''s-1''))
           (Inr (json_response 200 ''OK'' [] pl_tools)) (Inl (TypeError ''fetch failed'')))) =
       [Some ''text/plain'', Some ''text/plain'']"
proof -
  let ?c = "MCPClient \<lparr>cfg_url = ''https://mcp.example/mcp'',
      cfg_headers = Some [''Content-Type'' \<mapsto> ''text/plain'']\<rparr> (Some ''s-1'')"
  let ?f = "Inl (TypeError ''fetch failed'') :: error + response"
  let ?r = "Inr (json_response 200 ''OK'' [] pl_tools) :: error + response"
  have h: "headers ?c ''Content-Type'' = Some ''text/plain''"
    by (simp add: MCPClient_def)
  have s: "sessionId ?c = Some ''s-1''"
    by (simp add: MCPClient_def)
  have o: "origin sample ?r = Inr (Some (JObj [(''tools'', JArr [])]))"
    by (simp add: sample_defs http_defs startsWith_def member_of_def)
  have len: "length (sent (initialize sample ?c ?r ?f)) = 2"
    by (simp add: sent_initialize o)
  have two: "map g xs = [w, w]" if "length xs = 2" "\<forall>x\<in>set xs. g x = w"
    for g :: "request \<Rightarrow> string option" and xs w
    using that by (cases xs; cases "tl xs") auto
  from configured_headers [OF h, where P = sample and m = "''tools/list''" and params = "JObj []"
      and f = ?f and f' = ?f] s
  have 1: "map (\<lambda>rq. req_headers rq ''Content-Type'')
        (sent (sendRequest sample ?c ''tools/list'' (JObj []) ?f)) = [Some ''text/plain'']"
    and 2: "map (\<lambda>rq. req_headers rq ''Mcp-Session-Id'')
        (sent (sendRequest sample ?c ''tools/list'' (JObj []) ?f)) = [Some ''s-1'']"
    by simp_all
  from configured_headers [OF h, where P = sample and m = "''tools/list''" and params = "JObj []"
      and f = ?r and f' = ?f]
  have 3: "\<forall>rq\<in>set (sent (initialize sample ?c ?r ?f)). req_headers rq ''Content-Type'' = Some ''text/plain''"
    by simp
  show ?thesis
    using h 1 2 two [OF len 3] by simp
qed

text \<open>
  C5 as stated fails: with \<^verbatim>\<open>Mcp-Session-Id\<close> configured and a session id held, the
  request carries the session id, not the configured value.
\<close>

theorem configured_headers_counterexample:
  "headers (MCPClient \<lparr>cfg_url = ''https://mcp.example/mcp'',
                       cfg_headers = Some [''Mcp-Session-Id'' \<mapsto> ''configured'']\<rparr> (Some ''captured''))
     ''Mcp-Session-Id'' = Some ''configured''
   \<and> map (\<lambda>rq. req_headers rq ''Mcp-Session-Id'')
        (sent (sendRequest sample
           (MCPClient \<lparr>cfg_url = ''https://mcp.example/mcp'',
                        cfg_headers = Some [''Mcp-Session-Id'' \<mapsto> ''configured'']\<rparr> (Some ''captured''))
           ''tools/list'' (JObj []) (Inr (json_response 200 ''OK'' [] pl_tools)))) = [Some ''captured'']"
  by (simp add: sent_sendRequest requestHeaders_def base_headers_def MCPClient_def)

lemma read_response_http_error:
  "\<not> is_event_stream response \<Longrightarrow> \<not> ok response \<Longrightarrow>
   read_response P response =
     (Inl (Error (''HTTP '' @ show_nat (status response) @ '': '' @ statusText response)),
      [(ERROR, [AStr (''[MCP] HTTP '' @ show_nat (status response) @ '': '' @ statusText response)])] @
      (case response_text response of
         Inl e \<Rightarrow> []
       | Inr t \<Rightarrow> if t \<noteq> [] then [(ERROR, [AStr ''[MCP] Error response:'', AStr (take 500 t)])] else []))"
  by (simp add: read_response_def Let_def split: sum.splits)

lemma console_sendRequest_error:
  "fst (read_response P response) = Inl e \<Longrightarrow>
   set (snd (read_response P response)) \<subseteq> set (console (sendRequest P c m params (Inr response)))"
  by (auto simp: sendRequest_def getNextRequestId_def Let_def split: prod.splits sum.splits)

lemma console_initialize_error:
  "fst (read_response P response) = Inl e \<Longrightarrow>
   set (snd (read_response P response)) \<subseteq> set (console (initialize P c (Inr response) f'))"
  by (auto simp: initialize_def getNextRequestId_def Let_def split: prod.splits sum.splits)

text \<open>
  C6, as amended. When the status of a response is not 2xx and its content type is not
  an event stream, \<open>sendRequest\<close> and \<open>initialize\<close> fail with an \<^verbatim>\<open>Error\<close> whose
  message is \<^verbatim>\<open>HTTP <status>: <statusText>\<close> (behind the prefix
  \<^verbatim>\<open>MCP request failed: \<close> in \<open>sendRequest\<close>): it holds the status code and nothing
  of the body. A body that is not empty is written to the error console, cut to its
  first 500 characters.
\<close>

theorem http_error:
  assumes "\<not> is_event_stream response" and "\<not> ok response"
  shows "outcome (sendRequest P c m params (Inr response)) =
           Inl (Error (''MCP request failed: HTTP '' @ show_nat (status response) @ '': '' @
                       statusText response))
       \<and> outcome (initialize P c (Inr response) f') =
           Inl (Error (''HTTP '' @ show_nat (status response) @ '': '' @ statusText response))
       \<and> (\<forall>t. response_text response = Inr t \<and> t \<noteq> [] \<longrightarrow>
            (ERROR, [AStr ''[MCP] Error response:'', AStr (take 500 t)])
              \<in> set (console (sendRequest P c m params (Inr response)))
          \<and> (ERROR, [AStr ''[MCP] Error response:'', AStr (take 500 t)])
              \<in> set (console (initialize P c (Inr response) f')))"
proof -
  let ?e = "Error (''HTTP '' @ show_nat (status response) @ '': '' @ statusText response)"
  note rr = read_response_http_error [OF assms, of P]
  have o: "origin P (Inr response) = Inl ?e"
    by (simp add: origin_def rr)
  have f: "fst (read_response P response) = Inl ?e"
    by (simp add: rr)
  have l: "(ERROR, [AStr ''[MCP] Error response:'', AStr (take 500 t)]) \<in> set (snd (read_response P response))"
    if "response_text response = Inr t \<and> t \<noteq> []" for t
    using that by (simp add: rr)
  show ?thesis
    using o l console_sendRequest_error [OF f, of c m params] console_initialize_error [OF f, of c f']
    by (auto simp: outcome_sendRequest outcome_initialize)
qed

theorem http_error_witness:
  "\<not> is_event_stream (json_response 500 ''Internal Server Error'' [] (replicate 600 (CHR ''x'')))
   \<and> \<not> ok (json_response 500 ''Internal Server Error'' [] (replicate 600 (CHR ''x'')))
   \<and> response_text (json_response 500 ''Internal Server Error'' [] (replicate 600 (CHR ''x''))) =
       Inr (replicate 600 (CHR ''x''))
   \<and> outcome (sendRequest sample (MCPClient sample_config None) ''tools/list'' (JObj [])
        (Inr (json_response 500 ''Internal Server Error'' [] (replicate 600 (CHR ''x''))))) =
       Inl (Error ''MCP request failed: HTTP 500: Internal Server Error'')
   \<and> outcome (initialize sample (MCPClient sample_config None)
        (Inr (json_response 500 ''Internal Server Error'' [] (replicate 600 (CHR ''x''))))
        (Inl (TypeError ''fetch failed''))) =
       Inl (Error ''HTTP 500: Internal Server Error'')
   \<and> (ERROR, [AStr ''[MCP] Error response:'', AStr (replicate 500 (CHR ''x''))])
        \<in> set (console (sendRequest sample (MCPClient sample_config None) ''tools/list'' (JObj [])
             (Inr (json_response 500 ''Internal Server Error'' [] (replicate 600 (CHR ''x''))))))"
proof -
  let ?r = "json_response 500 ''Internal Server Error'' [] (replicate 600 (CHR ''x''))"
  let ?c = "MCPClient sample_config None"
  have h1: "\<not> is_event_stream ?r"
    by (simp add: json_response_def http_defs startsWith_def)
  have h2: "\<not> ok ?r"
    by (simp add: json_response_def ok_def)
  have t: "response_text ?r = Inr (replicate 600 (CHR ''x''))"
    by (simp add: json_response_def response_text_def)
  have n: "show_nat 500 = ''500''"
    by (simp add: show_nat.simps)
  have ne: "replicate 600 (CHR ''x'') \<noteq> []"
    by simp
  have st: "status ?r = 500" "statusText ?r = ''Internal Server Error''"
    by (simp_all add: json_response_def)
  from http_error [OF h1 h2, of sample ?c "''tools/list''" "JObj []" "Inl (TypeError ''fetch failed'')"] t ne
  show ?thesis
    using h1 h2 by (simp add: n st)
qed

text \<open>
  C6 as stated fails: the error of a 500 response whose body is \<^verbatim>\<open>oops\<close> holds no
  copy of the body.
\<close>

theorem http_error_counterexample:
  "response_text (json_response 500 ''Internal Server Error'' [] ''oops'') = Inr ''oops''
   \<and> outcome (sendRequest sample (MCPClient sample_config None) ''tools/list'' (JObj [])
        (Inr (json_response 500 ''Internal Server Error'' [] ''oops''))) =
       Inl (Error ''MCP request failed: HTTP 500: Internal Server Error'')
   \<and> \<not> str_includes ''MCP request failed: HTTP 500: Internal Server Error'' ''oops''
   \<and> outcome (initialize sample (MCPClient sample_config None)
        (Inr (json_response 500 ''Internal Server Error'' [] ''oops''))
        (Inl (TypeError ''fetch failed''))) =
       Inl (Error ''HTTP 500: Internal Server Error'')
   \<and> \<not> str_includes ''HTTP 500: Internal Server Error'' ''oops''"
proof -
  have n: "show_nat 500 = ''500''"
    by (simp add: show_nat.simps)
  have o: "origin sample (Inr (json_response 500 ''Internal Server Error'' [] ''oops'')) =
      Inl (Error ''HTTP 500: Internal Server Error'')"
    by (simp add: json_response_def http_defs startsWith_def Let_def n)
  show ?thesis
    by (simp add: outcome_sendRequest outcome_initialize o)
       (simp add: json_response_def response_text_def startsWith_def)
qed

lemma member_of_truthy: "member_of err k = Some x \<Longrightarrow> truthy err"
  by (cases err) (simp_all add: member_of_def null_read_def)

lemma read_response_sse:
  "is_event_stream response \<Longrightarrow>
   fst (read_response P response) =
     (case fst (handleSSEResponse P response) of Inl e \<Rightarrow> Inl e | Inr v \<Rightarrow> Inr (Some v))"
  by (simp add: read_response_def)



text \<open>
  C8 on the code. The stream of one event whose result is \<^verbatim>\<open>null\<close> has a
  \<^verbatim>\<open>result\<close> member, and the aggregation rejects it as if nothing had been received;
  the same payload as a JSON body makes \<open>callTool\<close> return \<^verbatim>\<open>null\<close>.
\<close>

theorem sse_null_result_rejected:
  "result_of sample (''data: '' @ pl_null) = Some JNull
   \<and> handleSSEResponse sample (sse_response [Chunk (''data: '' @ pl_null @ LF @ LF)]) =
       (Inl (Error ''No data received from SSE stream''), [])
   \<and> outcome (callTool sample (MCPClient sample_config None) ''noop'' (JObj [])
        (Inr (sse_response [Chunk (''data: '' @ pl_null @ LF @ LF)]))) =
       Inl (Error ''MCP request failed: No data received from SSE stream'')
   \<and> outcome (callTool sample (MCPClient sample_config None) ''noop'' (JObj [])
        (Inr (json_response 200 ''OK'' [] pl_null))) = Inr (Some JNull)"
proof -
  have a: "result_of sample (''data: '' @ pl_null) = Some JNull"
    by (simp add: sample_defs line_defs)
  have b: "handleSSEResponse sample (sse_response [Chunk (''data: '' @ pl_null @ LF @ LF)]) =
      (Inl (Error ''No data received from SSE stream''), [])"
    by (simp add: sample_defs line_defs sse_defs)
  have s: "is_event_stream (sse_response rs)" for rs
    by (simp add: sse_response_def http_defs startsWith_def)
  have c: "origin sample (Inr (sse_response [Chunk (''data: '' @ pl_null @ LF @ LF)])) =
      Inl (Error ''No data received from SSE stream'')"
    by (simp only: origin_def read_response_sse [OF s] b sum.case fst_conv)
  have d: "origin sample (Inr (json_response 200 ''OK'' [] pl_null)) = Inr (Some JNull)"
    by (simp add: sample_defs http_defs startsWith_def member_of_def)
  show ?thesis
    using a b c d by (simp add: callTool_def outcome_sendRequest)
qed

text \<open>
  C10, as amended. When the response to \<open>initialize\<close> carries a non-empty \<^verbatim>\<open>mcp-session-id\<close>
  header, the client's session id is that value afterwards, whatever the outcome: the
  assignment is made before the body is read. A status that is not 2xx (without an
  event stream) and a JSON body with a truthy \<^verbatim>\<open>error\<close> member both make
  \<open>initialize\<close> fail, so a failed \<open>initialize\<close> leaves the session id changed.
\<close>

theorem initialize_failure_session:
  assumes "headers_get (resp_headers response) ''mcp-session-id'' = Some S" and "S \<noteq> []"
  shows "sessionId (after (initialize P c (Inr response) f')) = Some S
       \<and> (\<not> is_event_stream response \<and> \<not> ok response \<longrightarrow>
            isl (outcome (initialize P c (Inr response) f')))
       \<and> (\<not> is_event_stream response \<and> ok response \<and> response_json P response = Inr result
            \<and> member_of result ''error'' = Some err \<and> truthy err \<longrightarrow>
            isl (outcome (initialize P c (Inr response) f')))"
proof -
  have s: "sessionId (after (initialize P c (Inr response) f')) = Some S"
    using assms by (simp add: after_initialize capture_sessionId)
  have a: "isl (outcome (initialize P c (Inr response) f'))"
    if "\<not> is_event_stream response \<and> \<not> ok response"
    using that by (simp add: outcome_initialize origin_def read_response_http_error)
  have b: "isl (outcome (initialize P c (Inr response) f'))"
    if h: "\<not> is_event_stream response \<and> ok response \<and> response_json P response = Inr result
        \<and> member_of result ''error'' = Some err \<and> truthy err"
  proof -
    from h have "get_prop result ''error'' = Inr (Some err)"
      using get_prop_truthy [OF member_of_truthy, of result "''error''" err "''error''"] by simp
    with h show ?thesis
      by (simp add: outcome_initialize origin_def read_response_def split: sum.splits)
  qed
  from s a b show ?thesis by blast
qed

theorem initialize_failure_session_witness:
  "headers_get (resp_headers (json_response 500 ''Internal Server Error'' [(''Mcp-Session-Id'', ''s-9'')] ''oops''))
     ''mcp-session-id'' = Some ''s-9''
   \<and> sessionId (MCPClient sample_config None) = None
   \<and> outcome (initialize sample (MCPClient sample_config None)
        (Inr (json_response 500 ''Internal Server Error'' [(''Mcp-Session-Id'', ''s-9'')] ''oops''))
        (Inl (TypeError ''fetch failed''))) = Inl (Error ''HTTP 500: Internal Server Error'')
   \<and> sessionId (after (initialize sample (MCPClient sample_config None)
        (Inr (json_response 500 ''Internal Server Error'' [(''Mcp-Session-Id'', ''s-9'')] ''oops''))
        (Inl (TypeError ''fetch failed'')))) = Some ''s-9''
   \<and> headers_get (resp_headers (json_response 200 ''OK'' [(''Mcp-Session-Id'', ''s-9'')] pl_rpc_error))
     ''mcp-session-id'' = Some ''s-9''
   \<and> outcome (initialize sample (MCPClient sample_config None)
        (Inr (json_response 200 ''OK'' [(''Mcp-Session-Id'', ''s-9'')] pl_rpc_error))
        (Inl (TypeError ''fetch failed''))) = Inl (Error ''Method not found'')
   \<and> sessionId (after (initialize sample (MCPClient sample_config None)
        (Inr (json_response 200 ''OK'' [(''Mcp-Session-Id'', ''s-9'')] pl_rpc_error))
        (Inl (TypeError ''fetch failed'')))) = Some ''s-9''"
proof -
  let ?r1 = "json_response 500 ''Internal Server Error'' [(''Mcp-Session-Id'', ''s-9'')] ''oops''"
  let ?r2 = "json_response 200 ''OK'' [(''Mcp-Session-Id'', ''s-9'')] pl_rpc_error"
  let ?c = "MCPClient sample_config None"
  let ?f = "Inl (TypeError ''fetch failed'') :: error + response"
  have h1: "headers_get (resp_headers ?r1) ''mcp-session-id'' = Some ''s-9''"
    and h2: "headers_get (resp_headers ?r2) ''mcp-session-id'' = Some ''s-9''"
    by (simp_all add: json_response_def http_defs)
  have ne: "''s-9'' \<noteq> []" by simp
  have c0: "sessionId ?c = None" by (simp add: MCPClient_def)
  have n: "show_nat 500 = ''500''"
    by (simp add: show_nat.simps)
  have o1: "outcome (initialize sample ?c (Inr ?r1) ?f) = Inl (Error ''HTTP 500: Internal Server Error'')"
    by (simp add: outcome_initialize json_response_def http_defs startsWith_def Let_def n)
  have o2: "outcome (initialize sample ?c (Inr ?r2) ?f) = Inl (Error ''Method not found'')"
    by (simp add: outcome_initialize sample_defs http_defs startsWith_def member_of_def
        message_or_def)
  from initialize_failure_session [OF h1 ne, of sample ?c ?f]
  have s1: "sessionId (after (initialize sample ?c (Inr ?r1) ?f)) = Some ''s-9''"
    by blast
  from initialize_failure_session [OF h2 ne, of sample ?c ?f]
  have s2: "sessionId (after (initialize sample ?c (Inr ?r2) ?f)) = Some ''s-9''"
    by blast
  show ?thesis
    using h1 h2 c0 o1 o2 s1 s2 by simp
qed

text \<open>
  C10 as stated fails: when the \<^verbatim>\<open>mcp-session-id\<close> header of the response is present
  with an empty value, a failing \<open>initialize\<close> leaves the session id as it was, not
  set to the header's value.
\<close>

theorem initialize_failure_session_counterexample:
  "headers_get (resp_headers (json_response 500 ''Internal Server Error'' [(''mcp-session-id'', [])] ''oops''))
     ''mcp-session-id'' = Some []
   \<and> sessionId (MCPClient sample_config (Some ''abc'')) = Some ''abc''
   \<and> outcome (initialize sample (MCPClient sample_config (Some ''abc''))
        (Inr (json_response 500 ''Internal Server Error'' [(''mcp-session-id'', [])] ''oops''))
        (Inl (TypeError ''fetch failed''))) = Inl (Error ''HTTP 500: Internal Server Error'')
   \<and> sessionId (after (initialize sample (MCPClient sample_config (Some ''abc''))
        (Inr (json_response 500 ''Internal Server Error'' [(''mcp-session-id'', [])] ''oops''))
        (Inl (TypeError ''fetch failed'')))) = Some ''abc''
   \<and> sessionId (after (initialize sample (MCPClient sample_config (Some ''abc''))
        (Inr (json_response 500 ''Internal Server Error'' [(''mcp-session-id'', [])] ''oops''))
        (Inl (TypeError ''fetch failed'')))) \<noteq> Some []"
proof -
  have n: "show_nat 500 = ''500''"
    by (simp add: show_nat.simps)
  show ?thesis
    by (simp add: outcome_initialize after_initialize capture_sessionId json_response_def
        http_defs startsWith_def Let_def n)
qed

end
